theory Spec2Isabelle
  imports Main "HOL-Library.Word"
begin

unbundle bit_operations_syntax

section \<open>Types and constants of mkfs.c\<close>

type_synonym u64 = "64 word"

text \<open>
  Block-group flag bits and incompat feature bits of the btrfs on-disk format
  (\<^verbatim>\<open>kernel-shared/uapi/btrfs_tree.h\<close>, \<^verbatim>\<open>kernel-shared/ctree.h\<close> of the
  vendored btrfs-progs), and the errno values of Linux.
\<close>

definition BTRFS_BLOCK_GROUP_DATA :: u64 where "BTRFS_BLOCK_GROUP_DATA = 1"
definition BTRFS_BLOCK_GROUP_SYSTEM :: u64 where "BTRFS_BLOCK_GROUP_SYSTEM = 2"
definition BTRFS_BLOCK_GROUP_METADATA :: u64 where "BTRFS_BLOCK_GROUP_METADATA = 4"
definition BTRFS_BLOCK_GROUP_RAID0 :: u64 where "BTRFS_BLOCK_GROUP_RAID0 = 8"
definition BTRFS_BLOCK_GROUP_RAID1 :: u64 where "BTRFS_BLOCK_GROUP_RAID1 = 16"
definition BTRFS_BLOCK_GROUP_DUP :: u64 where "BTRFS_BLOCK_GROUP_DUP = 32"
definition BTRFS_BLOCK_GROUP_RAID10 :: u64 where "BTRFS_BLOCK_GROUP_RAID10 = 64"
definition BTRFS_BLOCK_GROUP_RAID5 :: u64 where "BTRFS_BLOCK_GROUP_RAID5 = 128"
definition BTRFS_BLOCK_GROUP_RAID6 :: u64 where "BTRFS_BLOCK_GROUP_RAID6 = 256"
definition BTRFS_BLOCK_GROUP_RAID1C3 :: u64 where "BTRFS_BLOCK_GROUP_RAID1C3 = 512"
definition BTRFS_BLOCK_GROUP_RAID1C4 :: u64 where "BTRFS_BLOCK_GROUP_RAID1C4 = 1024"

definition BTRFS_BLOCK_GROUP_RAID56_MASK :: u64 where
  "BTRFS_BLOCK_GROUP_RAID56_MASK = BTRFS_BLOCK_GROUP_RAID5 OR BTRFS_BLOCK_GROUP_RAID6"

definition BTRFS_FEATURE_INCOMPAT_MIXED_GROUPS :: u64 where
  "BTRFS_FEATURE_INCOMPAT_MIXED_GROUPS = 4"
definition BTRFS_FEATURE_INCOMPAT_BIG_METADATA :: u64 where
  "BTRFS_FEATURE_INCOMPAT_BIG_METADATA = 32"
definition BTRFS_FEATURE_INCOMPAT_RAID56 :: u64 where
  "BTRFS_FEATURE_INCOMPAT_RAID56 = 128"
definition BTRFS_FEATURE_INCOMPAT_RAID1C34 :: u64 where
  "BTRFS_FEATURE_INCOMPAT_RAID1C34 = 2048"
definition BTRFS_FEATURE_INCOMPAT_EXTENT_TREE_V2 :: u64 where
  "BTRFS_FEATURE_INCOMPAT_EXTENT_TREE_V2 = 8192"
definition BTRFS_FEATURE_INCOMPAT_RAID_STRIPE_TREE :: u64 where
  "BTRFS_FEATURE_INCOMPAT_RAID_STRIPE_TREE = 16384"

definition BTRFS_BLOCK_GROUP_ITEM_KEY :: "8 word" where
  "BTRFS_BLOCK_GROUP_ITEM_KEY = 192"

definition EIO :: int where "EIO = 5"
definition ENOMEM :: int where "ENOMEM = 12"
definition EINVAL :: int where "EINVAL = 22"
definition ENOSPC :: int where "ENOSPC = 28"

text \<open>
  Values that mkfs.c takes from the vendored headers and from the host, and whose
  value depends on the btrfs-progs release or on the machine: the two block-group
  masks, the default profiles and the system group size of \<^verbatim>\<open>mkfs/common.h\<close>,
  the incompat bits of \<^verbatim>\<open>btrfs_mkfs_default_features\<close>, the remap-tree feature bit
  and block-group flag, and \<^verbatim>\<open>sysconf(_SC_PAGE_SIZE)\<close>. They are parameters of the
  model.
\<close>

record btrfs_hdr =
  BTRFS_BLOCK_GROUP_TYPE_MASK :: u64
  BTRFS_BLOCK_GROUP_PROFILE_MASK :: u64
  BTRFS_MKFS_DEFAULT_META_MULTI_DEVICE :: u64
  BTRFS_MKFS_DEFAULT_META_ONE_DEVICE :: u64
  BTRFS_MKFS_DEFAULT_DATA_MULTI_DEVICE :: u64
  default_incompat_flags :: u64
  BTRFS_FEATURE_INCOMPAT_REMAP_TREE :: u64
  BTRFS_BLOCK_GROUP_METADATA_REMAP :: u64
  BTRFS_MKFS_SYSTEM_GROUP_SIZE :: u64
  page_size :: int

text \<open>The header values of the btrfs-progs releases without a remap tree.\<close>

definition hdr0 :: btrfs_hdr where
  "hdr0 = \<lparr> BTRFS_BLOCK_GROUP_TYPE_MASK = 7,
            BTRFS_BLOCK_GROUP_PROFILE_MASK = 2040,
            BTRFS_MKFS_DEFAULT_META_MULTI_DEVICE = 16,
            BTRFS_MKFS_DEFAULT_META_ONE_DEVICE = 32,
            BTRFS_MKFS_DEFAULT_DATA_MULTI_DEVICE = 0,
            default_incompat_flags = 833,
            BTRFS_FEATURE_INCOMPAT_REMAP_TREE = 0,
            BTRFS_BLOCK_GROUP_METADATA_REMAP = 0,
            BTRFS_MKFS_SYSTEM_GROUP_SIZE = 4194304,
            page_size = 4096 \<rparr>"

text \<open>The keyword arguments of \<^verbatim>\<open>pybtrfs_mkfs\<close> that the model reads, and the number
  of positional device paths. \<^verbatim>\<open>metadata_profile\<close> is a C \<^verbatim>\<open>long long\<close>; it is
  kept as its 64 bits and read signed where the source compares it with 0.\<close>

record mkfs_args =
  device_count :: nat
  nodesize :: "32 word"
  sectorsize :: "32 word"
  byte_count :: u64
  metadata_profile_arg :: u64
  data_profile_arg :: u64
  mixed_arg :: bool
  features_arg :: u64
  force :: bool
  no_discard :: bool

section \<open>Profile and feature selection of \<^verbatim>\<open>pybtrfs_mkfs\<close>\<close>

text \<open>mkfs.c lines 820-832: the local \<^verbatim>\<open>meta_profile\<close>.\<close>

definition mkfs_meta_profile :: "btrfs_hdr \<Rightarrow> mkfs_args \<Rightarrow> u64" where
  "mkfs_meta_profile h a =
     (if metadata_profile_arg a <s 0 then
        (if \<not> mixed_arg a then
           (if device_count a > 1 then BTRFS_MKFS_DEFAULT_META_MULTI_DEVICE h
            else BTRFS_MKFS_DEFAULT_META_ONE_DEVICE h)
         else 0)
      else metadata_profile_arg a)"

text \<open>mkfs.c lines 834-837: the local \<^verbatim>\<open>data_prof\<close>.\<close>

definition mkfs_data_prof :: "btrfs_hdr \<Rightarrow> mkfs_args \<Rightarrow> u64" where
  "mkfs_data_prof h a =
     (if \<not> mixed_arg a \<and> data_profile_arg a = 0 \<and> device_count a > 1
      then BTRFS_MKFS_DEFAULT_DATA_MULTI_DEVICE h
      else data_profile_arg a)"

text \<open>mkfs.c lines 839-854: \<^verbatim>\<open>mkfs_features.incompat_flags\<close>, one assignment after
  the other.\<close>

definition mkfs_incompat_flags :: "btrfs_hdr \<Rightarrow> mkfs_args \<Rightarrow> u64" where
  "mkfs_incompat_flags h a =
     (let f0 = default_incompat_flags h OR features_arg a;
          f1 = (if mixed_arg a then f0 OR BTRFS_FEATURE_INCOMPAT_MIXED_GROUPS else f0);
          f2 = (if (mkfs_data_prof h a OR mkfs_meta_profile h a) AND BTRFS_BLOCK_GROUP_RAID56_MASK \<noteq> 0
                then f1 OR BTRFS_FEATURE_INCOMPAT_RAID56 else f1);
          f3 = (if (mkfs_data_prof h a OR mkfs_meta_profile h a) AND
                   (BTRFS_BLOCK_GROUP_RAID1C3 OR BTRFS_BLOCK_GROUP_RAID1C4) \<noteq> 0
                then f2 OR BTRFS_FEATURE_INCOMPAT_RAID1C34 else f2)
      in if uint (nodesize a) > page_size h
         then f3 OR BTRFS_FEATURE_INCOMPAT_BIG_METADATA else f3)"

text \<open>mkfs.c lines 856-857: mixed mode forces the node size to the sector size.\<close>

definition mkfs_nodesize :: "mkfs_args \<Rightarrow> 32 word" where
  "mkfs_nodesize a = (if mixed_arg a \<and> nodesize a \<noteq> sectorsize a then sectorsize a else nodesize a)"

section \<open>The block-group tree and the calls into btrfs-progs\<close>

text \<open>
  \<^verbatim>\<open>struct btrfs_key\<close>, and an item of the tree that \<^verbatim>\<open>btrfs_block_group_root\<close>
  returns. For an item of type \<^verbatim>\<open>BTRFS_BLOCK_GROUP_ITEM_KEY\<close> the key's objectid is
  the chunk start and its offset the chunk size; \<open>used\<close> and \<open>flags\<close> are what
  \<^verbatim>\<open>btrfs_block_group_used\<close> and \<^verbatim>\<open>btrfs_block_group_flags\<close> read from it.
\<close>

record btrfs_key =
  objectid :: u64
  ktype :: "8 word"
  offset :: u64

record item =
  key :: btrfs_key
  used :: u64
  flags :: u64

record mkfs_allocation =
  data :: u64
  metadata :: u64
  mixed :: u64
  system :: u64
  remap :: u64

text \<open>
  What \<^verbatim>\<open>pybtrfs_mkfs\<close> does to the devices and to the disk, in the order it does
  it: a worker launched for device \<open>i\<close>, joined, the device's descriptor closed, a call
  of \<^verbatim>\<open>make_btrfs\<close>, a successful \<^verbatim>\<open>open_ctree_fs_info\<close>, a successful
  \<^verbatim>\<open>btrfs_commit_transaction\<close> (with the source line of the call),
  \<^verbatim>\<open>close_ctree\<close> and \<^verbatim>\<open>btrfs_close_all_devices\<close>.
\<close>

datatype event =
    Launch nat
  | Join nat
  | Close_fd nat
  | Make_btrfs
  | Open_ctree
  | Commit nat
  | Close_ctree
  | Close_all_devices

text \<open>
  The state that the functions below work on: the items of the block-group tree in
  key order, the allocation ledger of \<^verbatim>\<open>pybtrfs_mkfs\<close>, and three histories that the
  code does not keep: the block groups made, the block groups removed and the events,
  oldest first.
\<close>

record fs_state =
  bg_tree :: "item list"
  allocation :: mkfs_allocation
  created :: "item list"
  removed :: "item list"
  events :: "event list"

text \<open>
  The btrfs-progs library is not part of this repository. What a call into it
  returns is given by the environment: an error code for each call that can fail
  (0 or positive when it does not), as a function of the call's arguments, or of the
  source line of the call for the transaction calls; and the chunk that the allocator
  hands out.
\<close>

record vendor_env =
  search_slot_err :: "btrfs_key \<Rightarrow> int"
  next_item_err :: "btrfs_key \<Rightarrow> int"
  remove_block_group_err :: "u64 \<Rightarrow> u64 \<Rightarrow> int"
  start_transaction_err :: "nat \<Rightarrow> int"
  commit_transaction_ret :: "nat \<Rightarrow> int"
  alloc_chunk :: "item list \<Rightarrow> u64 \<Rightarrow> int \<times> u64 \<times> u64"
  make_block_group_ret :: "u64 \<Rightarrow> u64 \<Rightarrow> u64 \<Rightarrow> int"

text \<open>\<^verbatim>\<open>btrfs_comp_cpu_keys(a, b) < 0\<close>: objectid, then type, then offset.\<close>

definition key_less :: "btrfs_key \<Rightarrow> btrfs_key \<Rightarrow> bool" where
  "key_less a b =
     (objectid a < objectid b \<or>
      (objectid a = objectid b \<and>
       (ktype a < ktype b \<or> (ktype a = ktype b \<and> offset a < offset b))))"

text \<open>
  \<^verbatim>\<open>btrfs_search_slot(trans, root, &key, &path, 0, 0)\<close> leaves the path at the first
  item whose key is not below the search key. The path is modelled by the items from
  that slot on; it is empty when every key of the tree is below the search key.
\<close>

definition btrfs_search_slot :: "btrfs_key \<Rightarrow> item list \<Rightarrow> item list" where
  "btrfs_search_slot k t = dropWhile (\<lambda>i. key_less (key i) k) t"

text \<open>\<^verbatim>\<open>btrfs_next_item\<close>: negative on an error, 1 when there is no next item, else 0
  with the path moved to the next item.\<close>

definition btrfs_next_item :: "vendor_env \<Rightarrow> item \<Rightarrow> item list \<Rightarrow> int" where
  "btrfs_next_item env cur rest =
     (if next_item_err env (key cur) < 0 then next_item_err env (key cur)
      else if rest = [] then 1 else 0)"

text \<open>\<^verbatim>\<open>btrfs_remove_block_group(trans, bytenr, len)\<close>: on success the block-group
  item with that start and size is gone from the tree.\<close>

definition btrfs_remove_block_group ::
  "vendor_env \<Rightarrow> u64 \<Rightarrow> u64 \<Rightarrow> item list \<Rightarrow> int \<times> item list" where
  "btrfs_remove_block_group env bytenr len t =
     (if remove_block_group_err env bytenr len < 0
      then (remove_block_group_err env bytenr len, t)
      else (0, filter (\<lambda>i. key i \<noteq> \<lparr>objectid = bytenr, ktype = BTRFS_BLOCK_GROUP_ITEM_KEY,
                                       offset = len\<rparr>) t))"

text \<open>\<^verbatim>\<open>btrfs_start_transaction\<close>: 0, or the error that \<^verbatim>\<open>PTR_ERR\<close> reads from the
  handle when \<^verbatim>\<open>IS_ERR\<close> holds. \<^verbatim>\<open>btrfs_commit_transaction\<close>: its result; a commit
  that succeeds is an event.\<close>

definition btrfs_start_transaction :: "vendor_env \<Rightarrow> nat \<Rightarrow> fs_state \<Rightarrow> int \<times> fs_state" where
  "btrfs_start_transaction env line s = (start_transaction_err env line, s)"

definition btrfs_commit_transaction :: "vendor_env \<Rightarrow> nat \<Rightarrow> fs_state \<Rightarrow> int \<times> fs_state" where
  "btrfs_commit_transaction env line s =
     (commit_transaction_ret env line,
      if commit_transaction_ret env line = 0 then s\<lparr>events := events s @ [Commit line]\<rparr>
      else s)"

text \<open>Insertion of an item at its place in key order; an item with the same key is
  replaced.\<close>

fun insert_item :: "item \<Rightarrow> item list \<Rightarrow> item list" where
  "insert_item x [] = [x]"
| "insert_item x (y # ys) =
     (if key_less (key x) (key y) then x # y # ys
      else if key x = key y then x # ys
      else y # insert_item x ys)"

text \<open>\<^verbatim>\<open>btrfs_make_block_group(trans, fs_info, bytes_used, type, chunk_offset, size)\<close>:
  on success the tree holds the block-group item of the chunk.\<close>

definition btrfs_make_block_group ::
  "vendor_env \<Rightarrow> u64 \<Rightarrow> u64 \<Rightarrow> u64 \<Rightarrow> u64 \<Rightarrow> fs_state \<Rightarrow> int \<times> fs_state" where
  "btrfs_make_block_group env bytes_used type chunk_offset len s =
     (let bg = \<lparr>key = \<lparr>objectid = chunk_offset, ktype = BTRFS_BLOCK_GROUP_ITEM_KEY,
                         offset = len\<rparr>,
                 used = bytes_used, flags = type\<rparr>
      in if make_block_group_ret env type chunk_offset len \<noteq> 0
         then (make_block_group_ret env type chunk_offset len, s)
         else (0, s\<lparr>bg_tree := insert_item bg (bg_tree s), created := created s @ [bg]\<rparr>))"

section \<open>The RAID group planner\<close>

text \<open>mkfs.c lines 349-386.\<close>

definition create_one_raid_group ::
  "btrfs_hdr \<Rightarrow> vendor_env \<Rightarrow> u64 \<Rightarrow> fs_state \<Rightarrow> int \<times> fs_state" where
  "create_one_raid_group h env type s =
     (case alloc_chunk env (bg_tree s) type of
        (ret, chunk_start, chunk_size) \<Rightarrow>
          if ret = - ENOSPC then (- ENOSPC, s)
          else if ret \<noteq> 0 then (ret, s)
          else
            (case btrfs_make_block_group env 0 type chunk_start chunk_size s of
               (ret, s1) \<Rightarrow>
                 let alloc = allocation s1;
                     type = type AND BTRFS_BLOCK_GROUP_TYPE_MASK h
                 in if type = BTRFS_BLOCK_GROUP_DATA then
                      (ret, s1\<lparr>allocation := alloc\<lparr>data := data alloc + chunk_size\<rparr>\<rparr>)
                    else if type = BTRFS_BLOCK_GROUP_METADATA then
                      (ret, s1\<lparr>allocation :=
                                  alloc\<lparr>metadata := metadata alloc + chunk_size\<rparr>\<rparr>)
                    else if type = BTRFS_BLOCK_GROUP_SYSTEM then
                      (ret, s1\<lparr>allocation :=
                                  alloc\<lparr>system := system alloc + chunk_size\<rparr>\<rparr>)
                    else if type = (BTRFS_BLOCK_GROUP_METADATA OR BTRFS_BLOCK_GROUP_DATA) then
                      (ret, s1\<lparr>allocation := alloc\<lparr>mixed := mixed alloc + chunk_size\<rparr>\<rparr>)
                    else (- EINVAL, s1)))"

text \<open>mkfs.c lines 388-422.\<close>

definition create_raid_groups ::
  "btrfs_hdr \<Rightarrow> vendor_env \<Rightarrow> u64 \<Rightarrow> u64 \<Rightarrow> bool \<Rightarrow> fs_state \<Rightarrow> int \<times> fs_state" where
  "create_raid_groups h env data_profile metadata_profile is_mixed s =
     (case (if metadata_profile \<noteq> 0 then
              (case create_one_raid_group h env
                      (BTRFS_BLOCK_GROUP_SYSTEM OR metadata_profile) s of
                 (ret, s1) \<Rightarrow>
                   if ret \<noteq> 0 then (ret, s1)
                   else
                     let meta_flags = (if is_mixed
                                       then BTRFS_BLOCK_GROUP_METADATA OR BTRFS_BLOCK_GROUP_DATA
                                       else BTRFS_BLOCK_GROUP_METADATA)
                     in create_one_raid_group h env (meta_flags OR metadata_profile) s1)
            else (0, s)) of
        (ret, s2) \<Rightarrow>
          if ret \<noteq> 0 then (ret, s2)
          else if \<not> is_mixed \<and> data_profile \<noteq> 0 then
            create_one_raid_group h env (BTRFS_BLOCK_GROUP_DATA OR data_profile) s2
          else (ret, s2))"

section \<open>The temporary chunk cleaner\<close>

text \<open>mkfs.c lines 424-455. The \<^verbatim>\<open>switch\<close> is written as the chain of its cases.\<close>

definition is_temp_block_group :: "btrfs_hdr \<Rightarrow> item \<Rightarrow> u64 \<Rightarrow> u64 \<Rightarrow> u64 \<Rightarrow> bool" where
  "is_temp_block_group h bgi data_profile meta_profile sys_profile =
     (let flag = flags bgi;
          flag_type = flag AND BTRFS_BLOCK_GROUP_TYPE_MASK h;
          flag_profile = flag AND BTRFS_BLOCK_GROUP_PROFILE_MASK h
      in if used bgi \<noteq> 0 then False
         else if flag_type = BTRFS_BLOCK_GROUP_DATA \<or>
                 flag_type = (BTRFS_BLOCK_GROUP_DATA OR BTRFS_BLOCK_GROUP_METADATA) then
           flag_profile \<noteq> (data_profile AND BTRFS_BLOCK_GROUP_PROFILE_MASK h)
         else if flag_type = BTRFS_BLOCK_GROUP_METADATA then
           flag_profile \<noteq> (meta_profile AND BTRFS_BLOCK_GROUP_PROFILE_MASK h)
         else if flag_type = BTRFS_BLOCK_GROUP_SYSTEM then
           flag_profile \<noteq> (sys_profile AND BTRFS_BLOCK_GROUP_PROFILE_MASK h)
         else False)"

text \<open>mkfs.c lines 457-473, entered with the path at \<open>cur\<close>: the result code and the
  path it leaves.\<close>

fun next_block_group :: "vendor_env \<Rightarrow> item list \<Rightarrow> int \<times> item list" where
  "next_block_group env [] = (1, [])"
| "next_block_group env (cur # rest) =
     (if btrfs_next_item env cur rest \<noteq> 0 then (btrfs_next_item env cur rest, rest)
      else
        (case rest of
           [] \<Rightarrow> (1, [])
         | nxt # _ \<Rightarrow>
             if ktype (key nxt) = BTRFS_BLOCK_GROUP_ITEM_KEY then (0, rest)
             else next_block_group env rest))"

text \<open>mkfs.c lines 537-549: the ledger entry of a removed block group.\<close>

definition ledger_remove :: "btrfs_hdr \<Rightarrow> item \<Rightarrow> mkfs_allocation \<Rightarrow> mkfs_allocation" where
  "ledger_remove h bg alloc =
     (let flags = flags bg; found_key = key bg
      in if flags AND BTRFS_BLOCK_GROUP_TYPE_MASK h = BTRFS_BLOCK_GROUP_DATA then
           alloc\<lparr>data := data alloc - offset found_key\<rparr>
         else if flags AND BTRFS_BLOCK_GROUP_TYPE_MASK h = BTRFS_BLOCK_GROUP_METADATA then
           alloc\<lparr>metadata := metadata alloc - offset found_key\<rparr>
         else if flags AND BTRFS_BLOCK_GROUP_TYPE_MASK h = BTRFS_BLOCK_GROUP_SYSTEM then
           alloc\<lparr>system := system alloc - offset found_key\<rparr>
         else if flags AND BTRFS_BLOCK_GROUP_TYPE_MASK h =
                 (BTRFS_BLOCK_GROUP_METADATA OR BTRFS_BLOCK_GROUP_DATA) then
           alloc\<lparr>mixed := mixed alloc - offset found_key\<rparr>
         else alloc)"

text \<open>
  mkfs.c lines 500-553: the \<^verbatim>\<open>while (1)\<close> loop, from the search key's objectid and
  the state at the head of an iteration to the value of \<^verbatim>\<open>ret\<close> and the state at the
  label \<^verbatim>\<open>out\<close>. The loop need not end; \<open>None\<close> is a run that never reaches \<^verbatim>\<open>out\<close>.
  A search that ends behind the last item reads no item, and the loop is left there as
  it is when the key read is below the search key.
\<close>

partial_function (option) cleanup_loop ::
  "btrfs_hdr \<Rightarrow> vendor_env \<Rightarrow> u64 \<Rightarrow> u64 \<Rightarrow> u64 \<Rightarrow> u64 \<Rightarrow> fs_state \<Rightarrow> (int \<times> fs_state) option"
where
  "cleanup_loop h env data_profile meta_profile sys_profile key_objectid s =
     (let search_key = \<lparr>objectid = key_objectid, ktype = BTRFS_BLOCK_GROUP_ITEM_KEY, offset = 0\<rparr>
      in if search_slot_err env search_key < 0 then Some (search_slot_err env search_key, s)
         else
           (case btrfs_search_slot search_key (bg_tree s) of
              [] \<Rightarrow> Some (0, s)
            | found # rest \<Rightarrow>
                if objectid (key found) < key_objectid then Some (0, s)
                else
                  (case (if ktype (key found) \<noteq> BTRFS_BLOCK_GROUP_ITEM_KEY
                         then next_block_group env (found # rest)
                         else (0, found # rest)) of
                     (ret, path) \<Rightarrow>
                       if ret < 0 then Some (ret, s)
                       else if ret > 0 then Some (0, s)
                       else
                         (case path of
                            [] \<Rightarrow> Some (0, s)
                          | bg # _ \<Rightarrow>
                              if is_temp_block_group h bg data_profile meta_profile sys_profile
                              then
                                (case btrfs_remove_block_group env (objectid (key bg))
                                        (offset (key bg)) (bg_tree s) of
                                   (ret, t) \<Rightarrow>
                                     if ret < 0 then Some (ret, s)
                                     else
                                       cleanup_loop h env data_profile meta_profile sys_profile
                                         (objectid (key bg) + offset (key bg))
                                         (s\<lparr>bg_tree := t,
                                            allocation := ledger_remove h bg (allocation s),
                                            removed := removed s @ [bg]\<rparr>))
                              else
                                cleanup_loop h env data_profile meta_profile sys_profile
                                  (objectid (key bg) + offset (key bg)) s))))"

declare cleanup_loop.simps [code]

text \<open>
  mkfs.c lines 475-564. At \<^verbatim>\<open>out\<close> the transaction is committed (\<^verbatim>\<open>trans\<close> is not
  null there) and \<^verbatim>\<open>ret\<close> is assigned the result of the commit. \<^verbatim>\<open>do_discard\<close> is
  cast to void and not read.
\<close>

definition cleanup_temp_chunks ::
  "btrfs_hdr \<Rightarrow> vendor_env \<Rightarrow> fs_state \<Rightarrow> u64 \<Rightarrow> u64 \<Rightarrow> u64 \<Rightarrow> int \<Rightarrow> (int \<times> fs_state) option"
where
  "cleanup_temp_chunks h env s data_profile meta_profile sys_profile do_discard =
     (if start_transaction_err env 488 \<noteq> 0 then Some (start_transaction_err env 488, s)
      else
        (case cleanup_loop h env data_profile meta_profile sys_profile 0 s of
           None \<Rightarrow> None
         | Some (ret, s1) \<Rightarrow> Some (btrfs_commit_transaction env 556 s1)))"

section \<open>The bootstrap block groups\<close>

text \<open>
  What the host and the device-side calls of btrfs-progs return: device validation,
  the allocation of the worker arrays, \<^verbatim>\<open>pthread_create\<close>, \<^verbatim>\<open>open\<close> and its errno,
  \<^verbatim>\<open>btrfs_prepare_device\<close> (its result and the byte count it stores, if it stores one),
  \<^verbatim>\<open>make_btrfs\<close>, the tree that \<^verbatim>\<open>open_ctree_fs_info\<close> finds (none when it returns
  null), the device calls of the attach loop, \<^verbatim>\<open>close_ctree\<close>, \<^verbatim>\<open>update_space_info\<close>
  and the zoned mode. The stages of \<^verbatim>\<open>pybtrfs_mkfs\<close> that no definition below looks
  into are given by their result and by what they do to the items of the tree.
\<close>

datatype stage =
    Setup_raid_stripe_tree_root
  | Setup_remap_tree_root
  | Create_global_roots
  | Make_root_dir
  | Recow_roots
  | Make_data_reloc_subvolume
  | Rebuild_uuid_tree

record host_env =
  test_dev_for_mkfs :: "nat \<Rightarrow> bool"
  calloc_ok :: bool
  pthread_create_ret :: "nat \<Rightarrow> int"
  open_fd :: "nat \<Rightarrow> int"
  open_errno :: "nat \<Rightarrow> int"
  btrfs_prepare_device :: "nat \<Rightarrow> u64 \<Rightarrow> int \<times> u64 option"
  make_btrfs_ret :: int
  open_ctree_fs_info :: "item list option"
  device_already_in_root :: "nat \<Rightarrow> int"
  add_to_fsid_ret :: "nat \<Rightarrow> int"
  close_ctree_ret :: int
  update_space_info_ret :: "u64 \<Rightarrow> int"
  btrfs_is_zoned :: bool
  zone_size :: u64
  stage_ret :: "stage \<Rightarrow> int"
  stage_tree :: "stage \<Rightarrow> item list \<Rightarrow> item list"

text \<open>mkfs.c lines 79-177. The ledger is part of the state, so that an early
  \<^verbatim>\<open>return\<close> keeps what was added to it before.\<close>

definition create_metadata_block_groups ::
  "btrfs_hdr \<Rightarrow> vendor_env \<Rightarrow> host_env \<Rightarrow> u64 \<Rightarrow> fs_state \<Rightarrow> int \<times> fs_state" where
  "create_metadata_block_groups h env host incompat_flags s =
     (let is_mixed = (incompat_flags AND BTRFS_FEATURE_INCOMPAT_MIXED_GROUPS \<noteq> 0);
          remap_tree = (incompat_flags AND BTRFS_FEATURE_INCOMPAT_REMAP_TREE h \<noteq> 0);
          system_group_size = (if btrfs_is_zoned host then zone_size host
                               else BTRFS_MKFS_SYSTEM_GROUP_SIZE h);
          flags = (if is_mixed then BTRFS_BLOCK_GROUP_METADATA OR BTRFS_BLOCK_GROUP_DATA
                   else BTRFS_BLOCK_GROUP_METADATA);
          ret0 = update_space_info_ret host flags
      in if ret0 < 0 then (ret0, s)
         else if start_transaction_err env 105 \<noteq> 0 then (start_transaction_err env 105, s)
         else
           let s1 = s\<lparr>allocation := (allocation s)\<lparr>system := system (allocation s) + system_group_size\<rparr>\<rparr>
           in if ret0 \<noteq> 0 then (ret0, s1)
              else
                (case (if is_mixed then
                         (case alloc_chunk env (bg_tree s1)
                                 (BTRFS_BLOCK_GROUP_METADATA OR BTRFS_BLOCK_GROUP_DATA) of
                            (ret, chunk_start, chunk_size) \<Rightarrow>
                              if ret \<noteq> 0 then (ret, s1)
                              else
                                (case btrfs_make_block_group env 0
                                        (BTRFS_BLOCK_GROUP_METADATA OR BTRFS_BLOCK_GROUP_DATA)
                                        chunk_start chunk_size s1 of
                                   (ret, s2) \<Rightarrow>
                                     if ret \<noteq> 0 then (ret, s2)
                                     else (0, s2\<lparr>allocation := (allocation s2)
                                                  \<lparr>mixed := mixed (allocation s2) + chunk_size\<rparr>\<rparr>)))
                       else
                         (case alloc_chunk env (bg_tree s1) BTRFS_BLOCK_GROUP_METADATA of
                            (ret, chunk_start, chunk_size) \<Rightarrow>
                              if ret \<noteq> 0 then (ret, s1)
                              else
                                (case btrfs_make_block_group env 0 BTRFS_BLOCK_GROUP_METADATA
                                        chunk_start chunk_size s1 of
                                   (ret, s2) \<Rightarrow>
                                     (ret, s2\<lparr>allocation := (allocation s2)
                                       \<lparr>metadata := metadata (allocation s2) + chunk_size\<rparr>\<rparr>)))) of
                   (ret, s3) \<Rightarrow>
                     if ret \<noteq> 0 then (ret, s3)
                     else
                       (case (if remap_tree then
                                (case alloc_chunk env (bg_tree s3)
                                        (BTRFS_BLOCK_GROUP_METADATA_REMAP h) of
                                   (ret, chunk_start, chunk_size) \<Rightarrow>
                                     if ret \<noteq> 0 then (ret, s3)
                                     else
                                       (case btrfs_make_block_group env 0
                                               (BTRFS_BLOCK_GROUP_METADATA_REMAP h)
                                               chunk_start chunk_size s3 of
                                          (ret, s4) \<Rightarrow>
                                            (ret, s4\<lparr>allocation := (allocation s4)
                                               \<lparr>remap := remap (allocation s4) + chunk_size\<rparr>\<rparr>)))
                              else (0, s3)) of
                          (ret, s5) \<Rightarrow>
                            if ret \<noteq> 0 then (ret, s5)
                            else btrfs_commit_transaction env 170 s5)))"

text \<open>mkfs.c lines 179-214.\<close>

definition create_data_block_groups ::
  "vendor_env \<Rightarrow> host_env \<Rightarrow> bool \<Rightarrow> fs_state \<Rightarrow> int \<times> fs_state" where
  "create_data_block_groups env host is_mixed s =
     (if \<not> is_mixed then
        (if update_space_info_ret host BTRFS_BLOCK_GROUP_DATA < 0
         then (update_space_info_ret host BTRFS_BLOCK_GROUP_DATA, s)
         else
           (case alloc_chunk env (bg_tree s) BTRFS_BLOCK_GROUP_DATA of
              (ret, chunk_start, chunk_size) \<Rightarrow>
                if ret \<noteq> 0 then (ret, s)
                else
                  (case btrfs_make_block_group env 0 BTRFS_BLOCK_GROUP_DATA
                          chunk_start chunk_size s of
                     (ret, s1) \<Rightarrow>
                       (ret, s1\<lparr>allocation := (allocation s1)
                                  \<lparr>data := data (allocation s1) + chunk_size\<rparr>\<rparr>))))
      else (0, s))"

section \<open>\<^verbatim>\<open>pybtrfs_mkfs\<close>\<close>

text \<open>\<^verbatim>\<open>struct prepare_device_progress\<close>: the fields that a worker writes.\<close>

record prepare_device_progress =
  fd :: int
  dev_byte_count :: u64
  ret :: int

text \<open>mkfs.c lines 696-713, on the context that lines 897-903 set up for device \<open>i\<close>:
  \<^verbatim>\<open>dev_byte_count\<close> starts as the requested byte count.\<close>

definition prepare_one_device :: "host_env \<Rightarrow> u64 \<Rightarrow> nat \<Rightarrow> prepare_device_progress" where
  "prepare_one_device host requested i =
     (if open_fd host i < 0 then
        \<lparr>fd = open_fd host i, dev_byte_count = requested, ret = - open_errno host i\<rparr>
      else
        \<lparr>fd = open_fd host i,
         dev_byte_count = (case snd (btrfs_prepare_device host i requested) of
                             None \<Rightarrow> requested | Some b \<Rightarrow> b),
         ret = fst (btrfs_prepare_device host i requested)\<rparr>)"

definition prepare_ctx :: "host_env \<Rightarrow> mkfs_args \<Rightarrow> nat \<Rightarrow> prepare_device_progress" where
  "prepare_ctx host a i = prepare_one_device host (byte_count a) i"

text \<open>The three exit labels of \<^verbatim>\<open>pybtrfs_mkfs\<close>, mkfs.c lines 1098-1112.\<close>

definition close_fds :: "host_env \<Rightarrow> mkfs_args \<Rightarrow> nat list \<Rightarrow> event list" where
  "close_fds host a is =
     concat (map (\<lambda>i. if 0 \<le> fd (prepare_ctx host a i) then [Close_fd i] else []) is)"

definition out_free :: "int \<Rightarrow> fs_state \<Rightarrow> int \<times> fs_state" where
  "out_free r s = (r, s\<lparr>events := events s @ [Close_all_devices]\<rparr>)"

definition out_close :: "host_env \<Rightarrow> mkfs_args \<Rightarrow> int \<Rightarrow> fs_state \<Rightarrow> int \<times> fs_state" where
  "out_close host a r s =
     out_free r (s\<lparr>events := events s @ close_fds host a [0..<device_count a]\<rparr>)"

definition out_ctree :: "host_env \<Rightarrow> mkfs_args \<Rightarrow> int \<Rightarrow> fs_state \<Rightarrow> int \<times> fs_state" where
  "out_ctree host a r s =
     out_close host a (if r = 0 \<and> close_ctree_ret host \<noteq> 0 then close_ctree_ret host else r)
       (s\<lparr>events := events s @ [Close_ctree]\<rparr>)"

text \<open>A sequence of calls, each followed by \<^verbatim>\<open>if (ret) goto out_ctree\<close>.\<close>

fun run_steps :: "(fs_state \<Rightarrow> int \<times> fs_state) list \<Rightarrow> fs_state \<Rightarrow> int \<times> fs_state" where
  "run_steps [] s = (0, s)"
| "run_steps (f # fs) s =
     (case f s of (r, s1) \<Rightarrow> if r \<noteq> 0 then (r, s1) else run_steps fs s1)"

text \<open>A stage that is not looked into: its result, and its effect on the items of the
  tree. The commits inside such a stage are not recorded as events. \<open>skip\<close> is a
  stage that the feature flags leave out.\<close>

definition opaque :: "host_env \<Rightarrow> stage \<Rightarrow> fs_state \<Rightarrow> int \<times> fs_state" where
  "opaque host st s = (stage_ret host st, s\<lparr>bg_tree := stage_tree host st (bg_tree s)\<rparr>)"

definition skip :: "fs_state \<Rightarrow> int \<times> fs_state" where
  "skip s = (0, s)"

text \<open>mkfs.c lines 1025-1042, over the devices after the first.\<close>

fun attach_devices :: "host_env \<Rightarrow> mkfs_args \<Rightarrow> nat list \<Rightarrow> fs_state \<Rightarrow> int \<times> fs_state" where
  "attach_devices host a [] s = (0, s)"
| "attach_devices host a (i # is) s =
     (if ret (prepare_ctx host a i) \<noteq> 0 then (ret (prepare_ctx host a i), s)
      else if device_already_in_root host i \<noteq> 0 then attach_devices host a is s
      else if add_to_fsid_ret host i \<noteq> 0 then (add_to_fsid_ret host i, s)
      else attach_devices host a is s)"

text \<open>mkfs.c lines 968-1084: from the metadata block groups to the UUID tree.\<close>

definition mkfs_steps ::
  "btrfs_hdr \<Rightarrow> vendor_env \<Rightarrow> host_env \<Rightarrow> mkfs_args \<Rightarrow> (fs_state \<Rightarrow> int \<times> fs_state) list" where
  "mkfs_steps h env host a =
     [create_metadata_block_groups h env host (mkfs_incompat_flags h a),
      (if mkfs_incompat_flags h a AND BTRFS_FEATURE_INCOMPAT_RAID_STRIPE_TREE \<noteq> 0
       then opaque host Setup_raid_stripe_tree_root else skip),
      (if mkfs_incompat_flags h a AND BTRFS_FEATURE_INCOMPAT_REMAP_TREE h \<noteq> 0
       then opaque host Setup_remap_tree_root else skip),
      btrfs_start_transaction env 992,
      create_data_block_groups env host (mixed_arg a),
      (if mkfs_incompat_flags h a AND BTRFS_FEATURE_INCOMPAT_EXTENT_TREE_V2 \<noteq> 0
       then opaque host Create_global_roots else skip),
      opaque host Make_root_dir,
      btrfs_commit_transaction env 1014,
      btrfs_start_transaction env 1019,
      attach_devices host a [1..<device_count a],
      create_raid_groups h env (mkfs_data_prof h a) (mkfs_meta_profile h a) (mixed_arg a),
      btrfs_commit_transaction env 1053,
      btrfs_start_transaction env 1057,
      opaque host Recow_roots,
      (if mkfs_incompat_flags h a AND BTRFS_FEATURE_INCOMPAT_REMAP_TREE h = 0
       then opaque host Make_data_reloc_subvolume else skip),
      btrfs_commit_transaction env 1077,
      opaque host Rebuild_uuid_tree]"

text \<open>mkfs.c lines 1087-1088: the call of the cleaner.\<close>

definition mkfs_cleanup ::
  "btrfs_hdr \<Rightarrow> vendor_env \<Rightarrow> mkfs_args \<Rightarrow> fs_state \<Rightarrow> (int \<times> fs_state) option" where
  "mkfs_cleanup h env a s =
     cleanup_temp_chunks h env s (mkfs_data_prof h a) (mkfs_meta_profile h a)
       (mkfs_meta_profile h a) (if no_discard a then 0 else 1)"

text \<open>
  mkfs.c lines 923-1112: \<^verbatim>\<open>pybtrfs_mkfs\<close> from the point where every worker has been
  joined, in the state \<open>s\<close> reached there.
\<close>

definition mkfs_joined ::
  "btrfs_hdr \<Rightarrow> vendor_env \<Rightarrow> host_env \<Rightarrow> mkfs_args \<Rightarrow> fs_state \<Rightarrow> (int \<times> fs_state) option"
where
  "mkfs_joined h env host a s =
     (if ret (prepare_ctx host a 0) \<noteq> 0
      then Some (out_close host a (ret (prepare_ctx host a 0)) s)
      else if byte_count a \<noteq> 0 \<and> byte_count a > dev_byte_count (prepare_ctx host a 0)
      then Some (out_close host a (- ENOSPC) s)
      else
        let s2 = s\<lparr>events := events s @ [Make_btrfs]\<rparr>
        in if make_btrfs_ret host \<noteq> 0
           then Some (out_close host a (make_btrfs_ret host) s2)
           else
             (case open_ctree_fs_info host of
                None \<Rightarrow> Some (out_close host a (- EIO) s2)
              | Some t \<Rightarrow>
                  (case run_steps (mkfs_steps h env host a)
                          (s2\<lparr>bg_tree := t, events := events s2 @ [Open_ctree]\<rparr>) of
                     (r, s3) \<Rightarrow>
                       if r \<noteq> 0 then Some (out_ctree host a r s3)
                       else
                         (case mkfs_cleanup h env a s3 of
                            None \<Rightarrow> None
                          | Some (r, s4) \<Rightarrow> Some (out_ctree host a r s4)))))"

text \<open>
  mkfs.c lines 859-1121, for arguments that passed the checks of lines 758-818 (at
  least one device): the value of \<^verbatim>\<open>ret\<close> that decides between \<^verbatim>\<open>OSError\<close> and the
  result dictionary, and the state at that point. \<open>None\<close> is a run that does not return.
\<close>

definition pybtrfs_mkfs ::
  "btrfs_hdr \<Rightarrow> vendor_env \<Rightarrow> host_env \<Rightarrow> mkfs_args \<Rightarrow> (int \<times> fs_state) option" where
  "pybtrfs_mkfs h env host a =
     (let n = device_count a;
          s0 = \<lparr>bg_tree = [],
                allocation = \<lparr>data = 0, metadata = 0, mixed = 0, system = 0, remap = 0\<rparr>,
                created = [], removed = [], events = []\<rparr>
      in if \<not> force a \<and> find (\<lambda>i. \<not> test_dev_for_mkfs host i) [0..<n] \<noteq> None
         then Some (out_free (- EINVAL) s0)
         else if \<not> calloc_ok host then Some (out_free (- ENOMEM) s0)
         else
           (case find (\<lambda>i. pthread_create_ret host i \<noteq> 0) [0..<n] of
              Some i \<Rightarrow>
                Some (out_free (- pthread_create_ret host i)
                        (s0\<lparr>events := map Launch [0..<i] @
                              concat (map (\<lambda>j. Join j # close_fds host a [j]) [0..<i])\<rparr>))
            | None \<Rightarrow>
                mkfs_joined h env host a
                  (s0\<lparr>events := map Launch [0..<n] @ map Join [0..<n]\<rparr>)))"

section \<open>Properties of the tree and of a cleaner run\<close>

text \<open>A block-group item of the tree.\<close>

definition is_bg :: "item \<Rightarrow> bool" where
  "is_bg i = (ktype (key i) = BTRFS_BLOCK_GROUP_ITEM_KEY)"

text \<open>The end of a block group's range, computed without wrap-around.\<close>

definition bg_end :: "item \<Rightarrow> nat" where
  "bg_end i = unat (objectid (key i)) + unat (offset (key i))"

text \<open>The key order, on items.\<close>

definition item_less :: "item \<Rightarrow> item \<Rightarrow> bool" where
  "item_less a b = key_less (key a) (key b)"

text \<open>The tree as the data model has it: keys strictly ascending; every block group of
  positive size, ending below \<open>2^64\<close>; the ranges of two block groups disjoint.\<close>

definition wf_tree :: "item list \<Rightarrow> bool" where
  "wf_tree t =
     (sorted_wrt item_less t \<and>
      (\<forall>i\<in>set t. is_bg i \<longrightarrow> 0 < offset (key i) \<and> bg_end i < 2 ^ 64) \<and>
      (\<forall>a\<in>set t. \<forall>b\<in>set t. is_bg a \<and> is_bg b \<and> item_less a b
          \<longrightarrow> bg_end a \<le> unat (objectid (key b))))"

text \<open>The search key of the cleaner at objectid \<open>k\<close>.\<close>

definition search_key :: "u64 \<Rightarrow> btrfs_key" where
  "search_key k = \<lparr>objectid = k, ktype = BTRFS_BLOCK_GROUP_ITEM_KEY, offset = 0\<rparr>"

text \<open>No search, step or removal fails.\<close>

definition no_errors :: "vendor_env \<Rightarrow> bool" where
  "no_errors env =
     ((\<forall>k. 0 \<le> search_slot_err env k) \<and> (\<forall>k. 0 \<le> next_item_err env k) \<and>
      (\<forall>a b. 0 \<le> remove_block_group_err env a b))"

text \<open>\<open>bg\<close> is the first block-group item at or after the search key.\<close>

definition first_bg :: "u64 \<Rightarrow> item list \<Rightarrow> item \<Rightarrow> bool" where
  "first_bg k t bg =
     (bg \<in> set t \<and> is_bg bg \<and> \<not> key_less (key bg) (search_key k) \<and>
      (\<forall>i\<in>set t. is_bg i \<and> \<not> key_less (key i) (search_key k)
          \<longrightarrow> i = bg \<or> item_less bg i))"

text \<open>The state after the removal of \<open>bg\<close> and the ledger update.\<close>

definition remove_step :: "btrfs_hdr \<Rightarrow> item \<Rightarrow> fs_state \<Rightarrow> fs_state" where
  "remove_step h bg s =
     s\<lparr>bg_tree := filter (\<lambda>i. key i \<noteq> key bg) (bg_tree s),
       allocation := ledger_remove h bg (allocation s),
       removed := removed s @ [bg]\<rparr>"

text \<open>Strictly ascending chunk start offsets.\<close>

definition ascending :: "item list \<Rightarrow> bool" where
  "ascending rs = sorted_wrt (\<lambda>a b. objectid (key a) < objectid (key b)) rs"

text \<open>The temporary block groups among the items \<open>t\<close>, in the order of the tree.\<close>

definition temp_groups :: "btrfs_hdr \<Rightarrow> u64 \<Rightarrow> u64 \<Rightarrow> u64 \<Rightarrow> item list \<Rightarrow> item list" where
  "temp_groups h dp mp sp t = filter (\<lambda>i. is_bg i \<and> is_temp_block_group h i dp mp sp) t"

text \<open>What the loop started at objectid \<open>k\<close> in state \<open>s\<close> has done when it reaches
  \<^verbatim>\<open>out\<close> with \<open>r\<close> in state \<open>s'\<close>: it removed the block groups \<open>rs\<close>, which
  are the first of the temporary block groups at or after the search key, and all of
  them when no library call failed.\<close>

definition loop_post ::
  "btrfs_hdr \<Rightarrow> vendor_env \<Rightarrow> u64 \<Rightarrow> u64 \<Rightarrow> u64 \<Rightarrow> u64 \<Rightarrow> fs_state \<Rightarrow> int \<Rightarrow> fs_state \<Rightarrow> bool" where
  "loop_post h env dp mp sp k s r s' =
     (\<exists>rs. removed s' = removed s @ rs \<and> created s' = created s \<and>
        bg_tree s' = filter (\<lambda>i. key i \<notin> key ` set rs) (bg_tree s) \<and>
        allocation s' = foldl (\<lambda>a bg. ledger_remove h bg a) (allocation s) rs \<and>
        set rs \<subseteq> set (bg_tree s) \<and>
        (\<forall>bg\<in>set rs. is_bg bg \<and> is_temp_block_group h bg dp mp sp \<and> k \<le> objectid (key bg)) \<and>
        ascending rs \<and>
        (\<exists>rest. temp_groups h dp mp sp
                  (filter (\<lambda>i. \<not> key_less (key i) (search_key k)) (bg_tree s)) = rs @ rest \<and>
               (no_errors env \<longrightarrow> rest = [])) \<and>
        (no_errors env \<longrightarrow> r = 0 \<and>
           (\<forall>i\<in>set (bg_tree s'). is_bg i \<and> \<not> key_less (key i) (search_key k)
               \<longrightarrow> \<not> is_temp_block_group h i dp mp sp)))"


text \<open>The amount that \<^verbatim>\<open>create_metadata_block_groups\<close> enters in the system field
  for the SYSTEM group that \<^verbatim>\<open>make_btrfs\<close> made (mkfs.c lines 90, 95-96 and 114).\<close>

definition system_group_size :: "btrfs_hdr \<Rightarrow> host_env \<Rightarrow> u64" where
  "system_group_size h host =
     (if btrfs_is_zoned host then zone_size host else BTRFS_MKFS_SYSTEM_GROUP_SIZE h)"

section \<open>Properties of the planner and of a run of \<^verbatim>\<open>pybtrfs_mkfs\<close>\<close>

text \<open>The flag words of the groups that \<^verbatim>\<open>create_raid_groups\<close> asks for, in the order of
  its calls of \<^verbatim>\<open>create_one_raid_group\<close>.\<close>

definition planned_raid_groups :: "u64 \<Rightarrow> u64 \<Rightarrow> bool \<Rightarrow> u64 list" where
  "planned_raid_groups data_profile metadata_profile is_mixed =
     (if metadata_profile \<noteq> 0 then
        [BTRFS_BLOCK_GROUP_SYSTEM OR metadata_profile,
         (if is_mixed then BTRFS_BLOCK_GROUP_METADATA OR BTRFS_BLOCK_GROUP_DATA
          else BTRFS_BLOCK_GROUP_METADATA) OR metadata_profile]
      else []) @
     (if \<not> is_mixed \<and> data_profile \<noteq> 0 then [BTRFS_BLOCK_GROUP_DATA OR data_profile]
      else [])"

text \<open>The same list in the words of the specification: a SYSTEM group at the metadata
  profile whatever that profile is, the metadata group only for a nonzero metadata
  profile, then the DATA group.\<close>

definition spec_raid_groups :: "u64 \<Rightarrow> u64 \<Rightarrow> bool \<Rightarrow> u64 list" where
  "spec_raid_groups data_profile metadata_profile is_mixed =
     [BTRFS_BLOCK_GROUP_SYSTEM OR metadata_profile] @
     (if metadata_profile \<noteq> 0 then
        [(if is_mixed then BTRFS_BLOCK_GROUP_METADATA OR BTRFS_BLOCK_GROUP_DATA
          else BTRFS_BLOCK_GROUP_METADATA) OR metadata_profile]
      else []) @
     (if \<not> is_mixed \<and> data_profile \<noteq> 0 then [BTRFS_BLOCK_GROUP_DATA OR data_profile]
      else [])"

text \<open>The type mask of a flag word is one of the four that the ledger has a field for.\<close>

definition valid_type_mask :: "btrfs_hdr \<Rightarrow> u64 \<Rightarrow> bool" where
  "valid_type_mask h type =
     (type AND BTRFS_BLOCK_GROUP_TYPE_MASK h = BTRFS_BLOCK_GROUP_DATA \<or>
      type AND BTRFS_BLOCK_GROUP_TYPE_MASK h = BTRFS_BLOCK_GROUP_METADATA \<or>
      type AND BTRFS_BLOCK_GROUP_TYPE_MASK h = BTRFS_BLOCK_GROUP_SYSTEM \<or>
      type AND BTRFS_BLOCK_GROUP_TYPE_MASK h =
        (BTRFS_BLOCK_GROUP_METADATA OR BTRFS_BLOCK_GROUP_DATA))"

text \<open>The device validation of mkfs.c lines 872-879 lets the run pass.\<close>

definition validation_ok :: "host_env \<Rightarrow> mkfs_args \<Rightarrow> bool" where
  "validation_ok host a =
     (force a \<or> find (\<lambda>i. \<not> test_dev_for_mkfs host i) [0..<device_count a] = None)"

text \<open>The worker arrays were allocated and every worker was launched (lines 882-918).\<close>

definition launch_ok :: "host_env \<Rightarrow> mkfs_args \<Rightarrow> bool" where
  "launch_ok host a =
     (calloc_ok host \<and> find (\<lambda>i. pthread_create_ret host i \<noteq> 0) [0..<device_count a] = None)"

text \<open>The state of \<^verbatim>\<open>pybtrfs_mkfs\<close> when every worker has been launched and joined.\<close>

definition joined_state :: "mkfs_args \<Rightarrow> fs_state" where
  "joined_state a =
     \<lparr>bg_tree = [],
      allocation = \<lparr>data = 0, metadata = 0, mixed = 0, system = 0, remap = 0\<rparr>,
      created = [], removed = [],
      events = map Launch [0..<device_count a] @ map Join [0..<device_count a]\<rparr>"

text \<open>The state in which the calls of lines 968-1084 start: \<^verbatim>\<open>make_btrfs\<close> and
  \<^verbatim>\<open>open_ctree_fs_info\<close> have succeeded and the tree holds the items \<open>t\<close>.\<close>

definition opened_state :: "mkfs_args \<Rightarrow> item list \<Rightarrow> fs_state" where
  "opened_state a t =
     (joined_state a)\<lparr>bg_tree := t, events := events (joined_state a) @ [Make_btrfs, Open_ctree]\<rparr>"

text \<open>The nine calls of lines 968-1019, which come before the attach loop.\<close>

definition bootstrap_steps ::
  "btrfs_hdr \<Rightarrow> vendor_env \<Rightarrow> host_env \<Rightarrow> mkfs_args \<Rightarrow> (fs_state \<Rightarrow> int \<times> fs_state) list" where
  "bootstrap_steps h env host a = take 9 (mkfs_steps h env host a)"

text \<open>The run reaches the attach loop of line 1025: the first device was prepared, the
  size check passed, \<^verbatim>\<open>make_btrfs\<close> and \<^verbatim>\<open>open_ctree_fs_info\<close> succeeded, and each of
  the calls before the loop returned 0.\<close>

definition attach_reached :: "btrfs_hdr \<Rightarrow> vendor_env \<Rightarrow> host_env \<Rightarrow> mkfs_args \<Rightarrow> bool" where
  "attach_reached h env host a =
     (ret (prepare_ctx host a 0) = 0 \<and>
      \<not> (byte_count a \<noteq> 0 \<and> byte_count a > dev_byte_count (prepare_ctx host a 0)) \<and>
      make_btrfs_ret host = 0 \<and>
      (case open_ctree_fs_info host of
         None \<Rightarrow> False
       | Some t \<Rightarrow> fst (run_steps (bootstrap_steps h env host a) (opened_state a t)) = 0))"

text \<open>The attach loop gets past every device before device \<open>i\<close> whose preparation
  succeeded: the device is in the root already, or \<^verbatim>\<open>btrfs_add_to_fsid\<close> returns 0.\<close>

definition added_before :: "host_env \<Rightarrow> nat \<Rightarrow> bool" where
  "added_before host i =
     list_all (\<lambda>j. device_already_in_root host j \<noteq> 0 \<or> add_to_fsid_ret host j = 0) [1..<i]"

text \<open>\<^verbatim>\<open>pybtrfs_mkfs\<close> reaches the call of the cleaner (line 1087) in the state \<open>s3\<close>:
  every call before it succeeded.\<close>

definition cleaner_reached ::
  "btrfs_hdr \<Rightarrow> vendor_env \<Rightarrow> host_env \<Rightarrow> mkfs_args \<Rightarrow> fs_state \<Rightarrow> bool" where
  "cleaner_reached h env host a s3 =
     (validation_ok host a \<and> launch_ok host a \<and> ret (prepare_ctx host a 0) = 0 \<and>
      \<not> (byte_count a \<noteq> 0 \<and> byte_count a > dev_byte_count (prepare_ctx host a 0)) \<and>
      make_btrfs_ret host = 0 \<and>
      (case open_ctree_fs_info host of
         None \<Rightarrow> False
       | Some t \<Rightarrow> run_steps (mkfs_steps h env host a) (opened_state a t) = (0, s3)))"

section \<open>Example inputs\<close>

text \<open>One device with every argument at its default, two devices, mixed mode, and four
  devices with RAID1C3 metadata and RAID5 data.\<close>

definition args_one :: mkfs_args where
  "args_one = \<lparr>device_count = 1, nodesize = 16384, sectorsize = 4096, byte_count = 0,
     metadata_profile_arg = - 1, data_profile_arg = 0, mixed_arg = False, features_arg = 0,
     force = True, no_discard = False\<rparr>"

definition args_two :: mkfs_args where
  "args_two = args_one\<lparr>device_count := 2\<rparr>"

definition args_mixed :: mkfs_args where
  "args_mixed = args_one\<lparr>mixed_arg := True\<rparr>"

definition args_raid :: mkfs_args where
  "args_raid = args_one\<lparr>device_count := 4, metadata_profile_arg := BTRFS_BLOCK_GROUP_RAID1C3,
     data_profile_arg := BTRFS_BLOCK_GROUP_RAID5\<rparr>"

text \<open>
  A block-group tree as \<^verbatim>\<open>pybtrfs_mkfs\<close> holds it on one device before the cleaner
  runs: the bootstrap SYSTEM, METADATA and DATA groups with the single profile and
  nothing used, the final SYSTEM and METADATA groups with the DUP profile, and one
  metadata item of the extent tree; with the ledger of that state. An environment in
  which no library call fails and the allocator hands out 1 GiB behind the last item of
  the tree, one in which \<^verbatim>\<open>btrfs_remove_block_group\<close> fails with \<^verbatim>\<open>-EIO\<close>, and one
  in which the cleaner cannot start its transaction (line 488, \<^verbatim>\<open>-ENOMEM\<close>).
\<close>

definition bg_item :: "u64 \<Rightarrow> u64 \<Rightarrow> u64 \<Rightarrow> u64 \<Rightarrow> item" where
  "bg_item start len fl us =
     \<lparr>key = \<lparr>objectid = start, ktype = BTRFS_BLOCK_GROUP_ITEM_KEY, offset = len\<rparr>,
      used = us, flags = fl\<rparr>"

definition tree_one :: "item list" where
  "tree_one =
     [bg_item 1048576 4194304 2 0,
      bg_item 5242880 8388608 4 0,
      bg_item 13631488 8388608 1 0,
      bg_item 22020096 8388608 34 16384,
      \<lparr>key = \<lparr>objectid = 30408704, ktype = 169, offset = 0\<rparr>, used = 0, flags = 0\<rparr>,
      bg_item 30408704 268435456 36 114688]"

definition state_one :: fs_state where
  "state_one = \<lparr>bg_tree = tree_one,
     allocation = \<lparr>data = 8388608, metadata = 276824064, mixed = 0, system = 12582912,
                   remap = 0\<rparr>,
     created = [], removed = [], events = []\<rparr>"

definition env_ok :: vendor_env where
  "env_ok = \<lparr>search_slot_err = (\<lambda>_. 0), next_item_err = (\<lambda>_. 0),
     remove_block_group_err = (\<lambda>_ _. 0), start_transaction_err = (\<lambda>_. 0),
     commit_transaction_ret = (\<lambda>_. 0),
     alloc_chunk = (\<lambda>t type. (0, (if t = [] then 1048576
                                       else objectid (key (last t)) + offset (key (last t))),
                                   1073741824)),
     make_block_group_ret = (\<lambda>_ _ _. 0)\<rparr>"

definition env_remove_fails :: vendor_env where
  "env_remove_fails = env_ok\<lparr>remove_block_group_err := (\<lambda>_ _. - EIO)\<rparr>"

definition env_start_fails :: vendor_env where
  "env_start_fails =
     env_ok\<lparr>start_transaction_err := (\<lambda>line. if line = 488 then - ENOMEM else 0)\<rparr>"

text \<open>
  An empty state. A host on which every call succeeds and every device has 1 GiB, with
  the bootstrap SYSTEM group in the tree that \<^verbatim>\<open>open_ctree_fs_info\<close> finds; hosts on
  which the preparation of the second device fails with \<^verbatim>\<open>-EIO\<close>, on which
  \<^verbatim>\<open>make_btrfs\<close> fails with \<^verbatim>\<open>-ENOMEM\<close> as well, on which the first device cannot be
  opened (\<^verbatim>\<open>EACCES\<close>), and on which the devices carry a filesystem signature. A
  request for 2 GiB without and with the force flag, and a metadata
  profile that is the DATA type bit.
\<close>

definition state_empty :: fs_state where
  "state_empty = \<lparr>bg_tree = [],
     allocation = \<lparr>data = 0, metadata = 0, mixed = 0, system = 0, remap = 0\<rparr>,
     created = [], removed = [], events = []\<rparr>"

definition host_ok :: host_env where
  "host_ok = \<lparr>test_dev_for_mkfs = (\<lambda>_. True), calloc_ok = True,
     pthread_create_ret = (\<lambda>_. 0), open_fd = (\<lambda>i. 3 + int i), open_errno = (\<lambda>_. 0),
     btrfs_prepare_device = (\<lambda>i requested. (0, Some 1073741824)),
     make_btrfs_ret = 0,
     open_ctree_fs_info = Some [bg_item 1048576 4194304 2 0],
     device_already_in_root = (\<lambda>_. 0), add_to_fsid_ret = (\<lambda>_. 0), close_ctree_ret = 0,
     update_space_info_ret = (\<lambda>_. 0), btrfs_is_zoned = False, zone_size = 0,
     stage_ret = (\<lambda>_. 0), stage_tree = (\<lambda>_ t. t)\<rparr>"

definition host_dev1_fails :: host_env where
  "host_dev1_fails =
     host_ok\<lparr>btrfs_prepare_device :=
               (\<lambda>i requested. if i = 1 then (- EIO, None) else (0, Some 1073741824))\<rparr>"

definition host_make_fails :: host_env where
  "host_make_fails = host_dev1_fails\<lparr>make_btrfs_ret := - ENOMEM\<rparr>"

definition host_dev0_fails :: host_env where
  "host_dev0_fails =
     host_ok\<lparr>open_fd := (\<lambda>i. if i = 0 then - 1 else 3 + int i), open_errno := (\<lambda>_. 13)\<rparr>"

definition host_signature :: host_env where
  "host_signature = host_ok\<lparr>test_dev_for_mkfs := (\<lambda>_. False)\<rparr>"

definition args_big :: mkfs_args where
  "args_big = args_one\<lparr>force := False, byte_count := 2147483648\<rparr>"

definition args_big_forced :: mkfs_args where
  "args_big_forced = args_big\<lparr>force := True\<rparr>"

definition args_bad_profile :: mkfs_args where
  "args_bad_profile = args_one\<lparr>metadata_profile_arg := 1\<rparr>"

section \<open>Theorems\<close>

lemmas const_defs =
  BTRFS_BLOCK_GROUP_DATA_def BTRFS_BLOCK_GROUP_METADATA_def BTRFS_BLOCK_GROUP_SYSTEM_def
  BTRFS_BLOCK_GROUP_RAID1_def BTRFS_BLOCK_GROUP_DUP_def BTRFS_BLOCK_GROUP_RAID5_def
  BTRFS_BLOCK_GROUP_RAID6_def BTRFS_BLOCK_GROUP_RAID1C3_def BTRFS_BLOCK_GROUP_RAID1C4_def
  BTRFS_BLOCK_GROUP_RAID56_MASK_def BTRFS_FEATURE_INCOMPAT_MIXED_GROUPS_def
  BTRFS_FEATURE_INCOMPAT_BIG_METADATA_def BTRFS_FEATURE_INCOMPAT_RAID56_def
  BTRFS_FEATURE_INCOMPAT_RAID1C34_def BTRFS_FEATURE_INCOMPAT_EXTENT_TREE_V2_def
  BTRFS_FEATURE_INCOMPAT_RAID_STRIPE_TREE_def BTRFS_BLOCK_GROUP_ITEM_KEY_def
  EIO_def ENOMEM_def EINVAL_def ENOSPC_def

lemmas example_defs =
  hdr0_def args_one_def args_two_def args_big_def args_big_forced_def args_bad_profile_def
  env_ok_def host_ok_def host_dev1_fails_def host_make_fails_def host_signature_def
  state_empty_def bg_item_def

lemmas mkfs_defs =
  pybtrfs_mkfs_def mkfs_joined_def mkfs_steps_def mkfs_cleanup_def out_free_def out_close_def
  out_ctree_def close_fds_def prepare_ctx_def prepare_one_device_def opaque_def skip_def
  btrfs_start_transaction_def btrfs_commit_transaction_def create_metadata_block_groups_def
  create_data_block_groups_def create_raid_groups_def create_one_raid_group_def
  btrfs_make_block_group_def mkfs_meta_profile_def mkfs_data_prof_def mkfs_incompat_flags_def
  key_less_def Let_def

text \<open>
  C7. When the metadata profile is unspecified (negative), \<^verbatim>\<open>pybtrfs_mkfs\<close> uses the
  multi-device metadata default if more than one device is given and the
  single-device default otherwise, and the profile is forced to none (0) in mixed mode;
  when the data profile is unspecified (0), the multi-device data default is used only
  when not in mixed mode and more than one device is given, otherwise the data profile
  stays 0.
\<close>

theorem profile_defaults:
  "(metadata_profile_arg a <s 0 \<and> \<not> mixed_arg a \<and> device_count a > 1
      \<longrightarrow> mkfs_meta_profile h a = BTRFS_MKFS_DEFAULT_META_MULTI_DEVICE h) \<and>
   (metadata_profile_arg a <s 0 \<and> \<not> mixed_arg a \<and> device_count a \<le> 1
      \<longrightarrow> mkfs_meta_profile h a = BTRFS_MKFS_DEFAULT_META_ONE_DEVICE h) \<and>
   (metadata_profile_arg a <s 0 \<and> mixed_arg a \<longrightarrow> mkfs_meta_profile h a = 0) \<and>
   (data_profile_arg a = 0 \<and> \<not> mixed_arg a \<and> device_count a > 1
      \<longrightarrow> mkfs_data_prof h a = BTRFS_MKFS_DEFAULT_DATA_MULTI_DEVICE h) \<and>
   (data_profile_arg a = 0 \<and> (mixed_arg a \<or> device_count a \<le> 1) \<longrightarrow> mkfs_data_prof h a = 0)"
  by (auto simp: mkfs_meta_profile_def mkfs_data_prof_def)

theorem profile_defaults_witness:
  "mkfs_meta_profile hdr0 args_two = BTRFS_BLOCK_GROUP_RAID1 \<and>
   mkfs_meta_profile hdr0 args_one = BTRFS_BLOCK_GROUP_DUP \<and>
   mkfs_meta_profile hdr0 args_mixed = 0 \<and>
   mkfs_data_prof hdr0 args_two = 0 \<and>
   mkfs_data_prof hdr0 args_one = 0"
  using profile_defaults[of args_two hdr0] profile_defaults[of args_one hdr0]
    profile_defaults[of args_mixed hdr0]
  by (simp add: args_one_def args_two_def args_mixed_def hdr0_def
      BTRFS_BLOCK_GROUP_RAID1_def BTRFS_BLOCK_GROUP_DUP_def)

lemma or_and_keep: "(x OR c) AND c = (c::u64)"
  by (rule bit_eqI) (auto simp: bit_simps)

lemma or_and_keep2: "(x AND c = (c::u64)) \<Longrightarrow> (x OR y) AND c = c"
  by (simp add: bit.conj_disj_distrib2 or_and_keep)

text \<open>
  C9. If the data or the metadata profile that \<^verbatim>\<open>pybtrfs_mkfs\<close> uses (after the
  defaults) contains a RAID5 or RAID6 bit, the RAID56 incompat flag is in the feature
  set; if either contains a RAID1C3 or RAID1C4 bit, the RAID1C34 incompat flag is in
  it; whatever the caller's features argument is.
\<close>

theorem raid_feature_flags:
  "((mkfs_data_prof h a OR mkfs_meta_profile h a) AND BTRFS_BLOCK_GROUP_RAID56_MASK \<noteq> 0
      \<longrightarrow> mkfs_incompat_flags h a AND BTRFS_FEATURE_INCOMPAT_RAID56
            = BTRFS_FEATURE_INCOMPAT_RAID56) \<and>
   ((mkfs_data_prof h a OR mkfs_meta_profile h a) AND
      (BTRFS_BLOCK_GROUP_RAID1C3 OR BTRFS_BLOCK_GROUP_RAID1C4) \<noteq> 0
      \<longrightarrow> mkfs_incompat_flags h a AND BTRFS_FEATURE_INCOMPAT_RAID1C34
            = BTRFS_FEATURE_INCOMPAT_RAID1C34)"
  by (simp add: mkfs_incompat_flags_def Let_def or_and_keep or_and_keep2)

theorem raid_feature_flags_witness:
  "(mkfs_data_prof hdr0 args_raid OR mkfs_meta_profile hdr0 args_raid)
      AND BTRFS_BLOCK_GROUP_RAID56_MASK \<noteq> 0 \<and>
   (mkfs_data_prof hdr0 args_raid OR mkfs_meta_profile hdr0 args_raid)
      AND (BTRFS_BLOCK_GROUP_RAID1C3 OR BTRFS_BLOCK_GROUP_RAID1C4) \<noteq> 0 \<and>
   features_arg args_raid = 0 \<and>
   mkfs_incompat_flags hdr0 args_raid AND BTRFS_FEATURE_INCOMPAT_RAID56
      = BTRFS_FEATURE_INCOMPAT_RAID56 \<and>
   mkfs_incompat_flags hdr0 args_raid AND BTRFS_FEATURE_INCOMPAT_RAID1C34
      = BTRFS_FEATURE_INCOMPAT_RAID1C34"
proof -
  have d: "mkfs_data_prof hdr0 args_raid = 128" "mkfs_meta_profile hdr0 args_raid = 512"
    by (simp_all add: mkfs_data_prof_def mkfs_meta_profile_def args_raid_def args_one_def
        BTRFS_BLOCK_GROUP_RAID5_def BTRFS_BLOCK_GROUP_RAID1C3_def word_sless_alt)
  have h: "(mkfs_data_prof hdr0 args_raid OR mkfs_meta_profile hdr0 args_raid)
             AND BTRFS_BLOCK_GROUP_RAID56_MASK \<noteq> 0"
      "(mkfs_data_prof hdr0 args_raid OR mkfs_meta_profile hdr0 args_raid)
             AND (BTRFS_BLOCK_GROUP_RAID1C3 OR BTRFS_BLOCK_GROUP_RAID1C4) \<noteq> 0"
    unfolding d
    by (simp_all add: BTRFS_BLOCK_GROUP_RAID56_MASK_def BTRFS_BLOCK_GROUP_RAID5_def
        BTRFS_BLOCK_GROUP_RAID6_def BTRFS_BLOCK_GROUP_RAID1C3_def BTRFS_BLOCK_GROUP_RAID1C4_def)
  have f: "features_arg args_raid = 0" by (simp add: args_raid_def args_one_def)
  from h f raid_feature_flags[of hdr0 args_raid] show ?thesis by blast
qed

text \<open>
  C10. The \<^verbatim>\<open>do_discard\<close> parameter of \<^verbatim>\<open>cleanup_temp_chunks\<close> has no effect: two
  runs that differ only in it remove the same block groups, update the ledger the same
  way and return the same result.
\<close>

theorem cleanup_ignores_do_discard:
  "cleanup_temp_chunks h env s data_profile meta_profile sys_profile d =
   cleanup_temp_chunks h env s data_profile meta_profile sys_profile d'"
  by (simp add: cleanup_temp_chunks_def)

subsection \<open>The key order and the path\<close>

lemma key_less_irrefl: "\<not> key_less a a"
  by (simp add: key_less_def)

lemma key_less_trans: "key_less a b \<Longrightarrow> key_less b c \<Longrightarrow> key_less a c"
  by (auto simp: key_less_def)

lemma dropWhile_sorted_filter:
  "sorted_wrt R xs \<Longrightarrow> (\<And>a b. R a b \<Longrightarrow> P b \<Longrightarrow> P a) \<Longrightarrow>
   dropWhile P xs = filter (\<lambda>x. \<not> P x) xs"
proof (induction xs)
  case Nil
  then show ?case by simp
next
  case (Cons x xs)
  show ?case
  proof (cases "P x")
    case True
    with Cons show ?thesis by simp
  next
    case False
    have "\<forall>y\<in>set xs. \<not> P y"
      using Cons.prems False by auto
    then have "filter (\<lambda>x. \<not> P x) xs = xs"
      by (simp add: filter_id_conv)
    with False show ?thesis by simp
  qed
qed

lemma search_slot_filter:
  "sorted_wrt item_less t \<Longrightarrow>
   btrfs_search_slot k t = filter (\<lambda>i. \<not> key_less (key i) k) t"
  unfolding btrfs_search_slot_def
  by (rule dropWhile_sorted_filter[where R=item_less]) (auto simp: item_less_def intro: key_less_trans)

lemma next_block_group_Cons:
  "next_block_group env (cur # rest) =
     (if btrfs_next_item env cur rest \<noteq> 0 then (btrfs_next_item env cur rest, rest)
      else if ktype (key (hd rest)) = BTRFS_BLOCK_GROUP_ITEM_KEY then (0, rest)
      else next_block_group env rest)"
  by (cases rest) (simp_all add: btrfs_next_item_def)

lemma next_block_group_path:
  "next_block_group env xs = (r, path) \<Longrightarrow> r = 0 \<Longrightarrow>
   \<exists>pre bg post. xs = pre @ bg # post \<and> path = bg # post \<and> pre \<noteq> [] \<and>
      (\<forall>x\<in>set (tl pre). \<not> is_bg x) \<and> is_bg bg"
proof (induction xs arbitrary: r path)
  case Nil
  then show ?case by simp
next
  case (Cons cur rest)
  note run = Cons.prems(1)[unfolded next_block_group_Cons]
  show ?case
  proof (cases "btrfs_next_item env cur rest \<noteq> 0")
    case True
    with run Cons.prems(2) show ?thesis by simp
  next
    case nz: False
    then have rest: "rest \<noteq> []"
      by (auto simp: btrfs_next_item_def split: if_splits)
    show ?thesis
    proof (cases "ktype (key (hd rest)) = BTRFS_BLOCK_GROUP_ITEM_KEY")
      case True
      with nz run have "path = rest" by simp
      with rest True show ?thesis
        by (intro exI[of _ "[cur]"] exI[of _ "hd rest"] exI[of _ "tl rest"])
           (simp add: is_bg_def)
    next
      case False
      with nz run have "next_block_group env rest = (r, path)" by simp
      from Cons.IH[OF this Cons.prems(2)]
      obtain pre bg post where p: "rest = pre @ bg # post" "path = bg # post" "pre \<noteq> []"
        "\<forall>x\<in>set (tl pre). \<not> is_bg x" "is_bg bg"
        by auto
      from p(3) p(1) have "hd pre = hd rest" by (cases pre) auto
      with False p(3) p(4) have "\<forall>x\<in>set pre. \<not> is_bg x"
        by (cases pre) (auto simp: is_bg_def)
      with p show ?thesis
        by (intro exI[of _ "cur # pre"] exI[of _ bg] exI[of _ post]) simp
    qed
  qed
qed

lemma next_block_group_end:
  "next_block_group env xs = (r, path) \<Longrightarrow> r > 0 \<Longrightarrow> \<forall>x\<in>set (tl xs). \<not> is_bg x"
proof (induction xs arbitrary: r path)
  case Nil
  then show ?case by simp
next
  case (Cons cur rest)
  note run = Cons.prems(1)[unfolded next_block_group_Cons]
  show ?case
  proof (cases "btrfs_next_item env cur rest \<noteq> 0")
    case True
    with run Cons.prems(2) have "rest = []"
      by (auto simp: btrfs_next_item_def split: if_splits)
    then show ?thesis by simp
  next
    case nz: False
    then have rest: "rest \<noteq> []"
      by (auto simp: btrfs_next_item_def split: if_splits)
    show ?thesis
    proof (cases "ktype (key (hd rest)) = BTRFS_BLOCK_GROUP_ITEM_KEY")
      case True
      with nz run Cons.prems(2) show ?thesis by simp
    next
      case False
      with nz run have "next_block_group env rest = (r, path)" by simp
      from Cons.IH[OF this Cons.prems(2)]
      have "\<forall>x\<in>set (tl rest). \<not> is_bg x" .
      with False rest show ?thesis
        by (cases rest) (auto simp: is_bg_def)
    qed
  qed
qed

lemma next_block_group_neg:
  "next_block_group env xs = (r, path) \<Longrightarrow> r < 0 \<Longrightarrow> \<exists>k. next_item_err env k < 0"
proof (induction xs arbitrary: r path)
  case Nil
  then show ?case by simp
next
  case (Cons cur rest)
  note run = Cons.prems(1)[unfolded next_block_group_Cons]
  show ?case
  proof (cases "btrfs_next_item env cur rest \<noteq> 0")
    case True
    with run Cons.prems(2) show ?thesis
      by (auto simp: btrfs_next_item_def split: if_splits)
  next
    case nz: False
    show ?thesis
    proof (cases "ktype (key (hd rest)) = BTRFS_BLOCK_GROUP_ITEM_KEY")
      case True
      with nz run Cons.prems(2) show ?thesis by simp
    next
      case False
      with nz run have "next_block_group env rest = (r, path)" by simp
      from Cons.IH[OF this Cons.prems(2)] show ?thesis .
    qed
  qed
qed

lemma bg_key_eta:
  "is_bg bg \<Longrightarrow>
   \<lparr>objectid = objectid (key bg), ktype = BTRFS_BLOCK_GROUP_ITEM_KEY, offset = offset (key bg)\<rparr>
     = key bg"
  by (simp add: is_bg_def)

lemma first_bg_of_path:
  assumes srt: "sorted_wrt item_less t"
    and xs: "btrfs_search_slot (search_key k) t = pre @ bg # post"
    and pre: "\<forall>x\<in>set pre. \<not> is_bg x" and bg: "is_bg bg"
  shows "first_bg k t bg"
proof -
  have f: "pre @ bg # post = filter (\<lambda>i. \<not> key_less (key i) (search_key k)) t"
    using search_slot_filter[OF srt] xs by simp
  have s2: "sorted_wrt item_less (pre @ bg # post)"
    unfolding f using srt by (rule sorted_wrt_filter)
  have mem: "bg \<in> set t" "\<not> key_less (key bg) (search_key k)"
    using f by (metis (mono_tags, lifting) in_set_conv_decomp mem_Collect_eq set_filter)+
  have "i = bg \<or> item_less bg i"
    if "i \<in> set t" "is_bg i" "\<not> key_less (key i) (search_key k)" for i
  proof -
    from that f have "i \<in> set (pre @ bg # post)" by simp
    with pre that(2) have "i = bg \<or> i \<in> set post" by auto
    with s2 show ?thesis by (auto simp: sorted_wrt_append)
  qed
  with mem bg show ?thesis by (auto simp: first_bg_def)
qed

lemma no_bg_after:
  assumes srt: "sorted_wrt item_less t"
    and xs: "\<forall>x\<in>set (btrfs_search_slot (search_key k) t). \<not> is_bg x"
    and i: "i \<in> set t" "is_bg i"
  shows "key_less (key i) (search_key k)"
  using search_slot_filter[OF srt, of "search_key k"] xs i by auto

lemma cleanup_loop_unfold:
  assumes srt: "sorted_wrt item_less (bg_tree s)"
  shows "(\<exists>r. cleanup_loop h env dp mp sp k s = Some (r, s) \<and> (r < 0 \<longrightarrow> \<not> no_errors env) \<and>
              (0 \<le> r \<longrightarrow> r = 0 \<and>
                 (\<forall>i\<in>set (bg_tree s). is_bg i \<longrightarrow> key_less (key i) (search_key k)))) \<or>
         (\<exists>bg. first_bg k (bg_tree s) bg \<and>
            (if is_temp_block_group h bg dp mp sp then
               (if remove_block_group_err env (objectid (key bg)) (offset (key bg)) < 0
                then cleanup_loop h env dp mp sp k s =
                       Some (remove_block_group_err env (objectid (key bg)) (offset (key bg)), s)
                else cleanup_loop h env dp mp sp k s =
                       cleanup_loop h env dp mp sp (objectid (key bg) + offset (key bg))
                         (remove_step h bg s))
             else cleanup_loop h env dp mp sp k s =
                    cleanup_loop h env dp mp sp (objectid (key bg) + offset (key bg)) s))"
    (is "?stop \<or> ?go")
proof (cases "search_slot_err env (search_key k) < 0")
  case True
  then have "cleanup_loop h env dp mp sp k s = Some (search_slot_err env (search_key k), s)"
    by (subst cleanup_loop.simps) (simp add: search_key_def)
  moreover have "\<not> no_errors env"
    using True by (auto simp: no_errors_def not_le intro: exI[of _ "search_key k"])
  ultimately have ?stop using True by simp
  then show ?thesis ..
next
  case noerr: False
  show ?thesis
  proof (cases "btrfs_search_slot (search_key k) (bg_tree s)")
    case Nil
    then have "cleanup_loop h env dp mp sp k s = Some (0, s)"
      using noerr by (subst cleanup_loop.simps) (simp add: search_key_def)
    moreover have "\<forall>i\<in>set (bg_tree s). is_bg i \<longrightarrow> key_less (key i) (search_key k)"
      using no_bg_after[OF srt, of k] Nil by simp
    ultimately have ?stop by simp
    then show ?thesis ..
  next
    case (Cons found rest)
    have f: "found # rest = filter (\<lambda>i. \<not> key_less (key i) (search_key k)) (bg_tree s)"
      using search_slot_filter[OF srt] Cons by simp
    then have "\<not> key_less (key found) (search_key k)"
      by (metis (mono_tags, lifting) list.set_intros(1) mem_Collect_eq set_filter)
    then have ge: "\<not> objectid (key found) < k"
      by (auto simp: key_less_def search_key_def)
    show ?thesis
    proof (cases "ktype (key found) = BTRFS_BLOCK_GROUP_ITEM_KEY")
      case True
      then have fb: "first_bg k (bg_tree s) found"
        using first_bg_of_path[OF srt, of k "[]" found rest] Cons by (simp add: is_bg_def)
      have eta: "\<lparr>objectid = objectid (key found), ktype = BTRFS_BLOCK_GROUP_ITEM_KEY,
                  offset = offset (key found)\<rparr> = key found"
        using True by (simp add: bg_key_eta is_bg_def)
      have "cleanup_loop h env dp mp sp k s =
        (if is_temp_block_group h found dp mp sp then
           (if remove_block_group_err env (objectid (key found)) (offset (key found)) < 0
            then Some (remove_block_group_err env (objectid (key found)) (offset (key found)), s)
            else cleanup_loop h env dp mp sp (objectid (key found) + offset (key found))
                   (remove_step h found s))
         else cleanup_loop h env dp mp sp (objectid (key found) + offset (key found)) s)"
        using noerr Cons ge True
        by (subst cleanup_loop.simps)
           (simp add: search_key_def[symmetric] btrfs_remove_block_group_def remove_step_def eta)
      with fb have ?go by (intro exI[of _ found]) (simp split: if_splits)
      then show ?thesis ..
    next
      case nbg: False
      obtain r path where nb: "next_block_group env (found # rest) = (r, path)"
        by (cases "next_block_group env (found # rest)")
      consider "r < 0" | "r > 0" | "r = 0" by linarith
      then show ?thesis
      proof cases
        case 1
        have "cleanup_loop h env dp mp sp k s = Some (r, s)"
          using noerr Cons ge nbg nb 1
          by (subst cleanup_loop.simps) (simp add: search_key_def[symmetric])
        moreover have "\<not> no_errors env"
          using next_block_group_neg[OF nb 1] by (auto simp: no_errors_def not_le)
        ultimately have ?stop using 1 by simp
        then show ?thesis ..
      next
        case 2
        have "cleanup_loop h env dp mp sp k s = Some (0, s)"
          using noerr Cons ge nbg nb 2
          by (subst cleanup_loop.simps) (simp add: search_key_def[symmetric])
        moreover have "\<forall>x\<in>set (found # rest). \<not> is_bg x"
          using next_block_group_end[OF nb 2] nbg by (simp add: is_bg_def)
        then have "\<forall>i\<in>set (bg_tree s). is_bg i \<longrightarrow> key_less (key i) (search_key k)"
          using no_bg_after[OF srt, of k] Cons by simp
        ultimately have ?stop by simp
        then show ?thesis ..
      next
        case 3
        from next_block_group_path[OF nb 3]
        obtain pre bg post where p: "found # rest = pre @ bg # post" "path = bg # post"
          "pre \<noteq> []" "\<forall>x\<in>set (tl pre). \<not> is_bg x" "is_bg bg"
          by auto
        from p(1) p(3) have "hd pre = found" by (cases pre) auto
        with nbg p(3) p(4) have pre: "\<forall>x\<in>set pre. \<not> is_bg x"
          by (cases pre) (auto simp: is_bg_def)
        have fb: "first_bg k (bg_tree s) bg"
          using first_bg_of_path[OF srt _ pre p(5), of k post] Cons p(1) by simp
        have eta: "\<lparr>objectid = objectid (key bg), ktype = BTRFS_BLOCK_GROUP_ITEM_KEY,
                  offset = offset (key bg)\<rparr> = key bg"
          using p(5) by (rule bg_key_eta)
        have "cleanup_loop h env dp mp sp k s =
          (if is_temp_block_group h bg dp mp sp then
             (if remove_block_group_err env (objectid (key bg)) (offset (key bg)) < 0
              then Some (remove_block_group_err env (objectid (key bg)) (offset (key bg)), s)
              else cleanup_loop h env dp mp sp (objectid (key bg) + offset (key bg))
                     (remove_step h bg s))
           else cleanup_loop h env dp mp sp (objectid (key bg) + offset (key bg)) s)"
          using noerr Cons ge nbg nb 3 p(2)
          by (subst cleanup_loop.simps)
             (simp add: search_key_def[symmetric] btrfs_remove_block_group_def remove_step_def eta)
        with fb have ?go by (intro exI[of _ bg]) (simp split: if_splits)
        then show ?thesis ..
      qed
    qed
  qed
qed

lemma wf_tree_filter: "wf_tree t \<Longrightarrow> wf_tree (filter P t)"
  by (auto simp: wf_tree_def intro: sorted_wrt_filter)

lemma length_filter_strict:
  assumes "x \<in> set xs" "P x" "\<not> Q x" "\<forall>y\<in>set xs. Q y \<longrightarrow> P y"
  shows "length (filter Q (filter R xs)) < length (filter P xs)"
proof -
  have "filter Q (filter R xs) = filter (\<lambda>y. Q y \<and> R y) (filter P xs)"
    using assms(4) by (induction xs) auto
  moreover have "x \<in> set (filter P xs)" using assms by simp
  ultimately show ?thesis
    using assms(3) by (metis (mono_tags, lifting) length_filter_less)
qed

lemma bg_step_facts:
  assumes wf: "wf_tree t" and fb: "first_bg k t bg"
  shows "k \<le> objectid (key bg)"
    and "objectid (key bg) < objectid (key bg) + offset (key bg)"
    and "key_less (key bg) (search_key (objectid (key bg) + offset (key bg)))"
    and "\<And>i. \<not> key_less (key i) (search_key (objectid (key bg) + offset (key bg)))
            \<Longrightarrow> \<not> key_less (key i) (search_key k)"
    and "\<And>i. i \<in> set t \<Longrightarrow> is_bg i \<Longrightarrow> \<not> key_less (key i) (search_key k) \<Longrightarrow> i \<noteq> bg
            \<Longrightarrow> \<not> key_less (key i) (search_key (objectid (key bg) + offset (key bg)))"
proof -
  let ?k' = "objectid (key bg) + offset (key bg)"
  from fb have bg: "bg \<in> set t" "is_bg bg" "\<not> key_less (key bg) (search_key k)"
    by (auto simp: first_bg_def)
  from wf bg have pos: "0 < offset (key bg)" and nov: "bg_end bg < 2 ^ 64"
    by (auto simp: wf_tree_def)
  from nov have un: "unat ?k' = bg_end bg"
    by (simp add: bg_end_def unat_add_lem[THEN iffD1])
  from bg(3) show ge: "k \<le> objectid (key bg)"
    by (auto simp: key_less_def search_key_def not_less)
  from pos have "0 < unat (offset (key bg))" by (simp add: word_less_nat_alt)
  with un show lt: "objectid (key bg) < ?k'"
    by (simp add: word_less_nat_alt bg_end_def)
  then show "key_less (key bg) (search_key ?k')"
    by (simp add: key_less_def search_key_def)
  from ge lt have kk: "k < ?k'" by simp
  show "\<not> key_less (key i) (search_key k)"
    if "\<not> key_less (key i) (search_key ?k')" for i
    using that kk by (auto simp: key_less_def search_key_def)
  show "\<not> key_less (key i) (search_key ?k')"
    if "i \<in> set t" "is_bg i" "\<not> key_less (key i) (search_key k)" "i \<noteq> bg" for i
  proof -
    from fb that have "item_less bg i" by (auto simp: first_bg_def)
    with wf bg that have "bg_end bg \<le> unat (objectid (key i))"
      by (auto simp: wf_tree_def)
    with un have "?k' \<le> objectid (key i)" by (simp add: word_le_nat_alt)
    with that(2) show ?thesis
      by (auto simp: key_less_def search_key_def is_bg_def)
  qed
qed

lemma filter_first:
  assumes "sorted_wrt R t" "\<And>x. \<not> R x x" "\<And>x y z. R x y \<Longrightarrow> R y z \<Longrightarrow> R x z"
    "x \<in> set t" "P x" "\<forall>z\<in>set t. P z \<longrightarrow> z = x \<or> R x z"
  shows "filter P t = x # filter (\<lambda>z. P z \<and> z \<noteq> x) t"
  using assms(1,4,6)
proof (induction t)
  case Nil
  then show ?case by simp
next
  case (Cons y ys)
  show ?case
  proof (cases "y = x")
    case True
    have "x \<notin> set ys"
      using Cons.prems(1) True assms(2) by auto
    then have "filter P ys = filter (\<lambda>z. P z \<and> z \<noteq> x) ys"
      by (intro filter_cong) auto
    with True assms(5) show ?thesis by simp
  next
    case False
    with Cons.prems(2) have x: "x \<in> set ys" by simp
    have "\<not> P y"
    proof
      assume "P y"
      with Cons.prems(3) False have "R x y" by auto
      moreover from Cons.prems(1) x have "R y x" by simp
      ultimately show False using assms(2,3) by blast
    qed
    moreover have "filter P ys = x # filter (\<lambda>z. P z \<and> z \<noteq> x) ys"
      using Cons.IH Cons.prems x by simp
    ultimately show ?thesis using False by simp
  qed
qed

lemma sorted_key_inj:
  "sorted_wrt item_less t \<Longrightarrow> a \<in> set t \<Longrightarrow> b \<in> set t \<Longrightarrow> key a = key b \<Longrightarrow> a = b"
proof (induction t)
  case Nil
  then show ?case by simp
next
  case (Cons x xs)
  then show ?case
    by (auto simp: item_less_def key_less_irrefl)
qed

lemma temp_groups_remove:
  assumes wf: "wf_tree t" and fb: "first_bg k t bg" and tmp: "is_temp_block_group h bg dp mp sp"
  shows "temp_groups h dp mp sp (filter (\<lambda>i. \<not> key_less (key i) (search_key k)) t) =
         bg # temp_groups h dp mp sp
                (filter (\<lambda>i. \<not> key_less (key i) (search_key (objectid (key bg) + offset (key bg))))
                   (filter (\<lambda>i. key i \<noteq> key bg) t))"
proof -
  let ?k' = "objectid (key bg) + offset (key bg)"
  let ?P = "\<lambda>i. \<not> key_less (key i) (search_key k) \<and> is_bg i \<and> is_temp_block_group h i dp mp sp"
  note F = bg_step_facts[OF wf fb]
  from wf have srt: "sorted_wrt item_less t" by (simp add: wf_tree_def)
  from fb have bg: "bg \<in> set t" "is_bg bg" "\<not> key_less (key bg) (search_key k)"
    by (auto simp: first_bg_def)
  have "filter ?P t = bg # filter (\<lambda>z. ?P z \<and> z \<noteq> bg) t"
  proof (rule filter_first[where R = item_less])
    show "sorted_wrt item_less t" by (rule srt)
    show "\<not> item_less x x" for x by (simp add: item_less_def key_less_irrefl)
    show "item_less x y \<Longrightarrow> item_less y z \<Longrightarrow> item_less x z" for x y z
      unfolding item_less_def by (rule key_less_trans)
    show "bg \<in> set t" by (rule bg(1))
    show "?P bg" using bg tmp by simp
    show "\<forall>z\<in>set t. ?P z \<longrightarrow> z = bg \<or> item_less bg z"
      using fb by (auto simp: first_bg_def)
  qed
  moreover have "filter (\<lambda>z. ?P z \<and> z \<noteq> bg) t =
      filter (\<lambda>i. key i \<noteq> key bg \<and> \<not> key_less (key i) (search_key ?k') \<and>
                  is_bg i \<and> is_temp_block_group h i dp mp sp) t"
  proof (rule filter_cong[OF refl])
    fix i assume i: "i \<in> set t"
    show "(?P i \<and> i \<noteq> bg) =
          (key i \<noteq> key bg \<and> \<not> key_less (key i) (search_key ?k') \<and>
                  is_bg i \<and> is_temp_block_group h i dp mp sp)"
      using F(4)[of i] F(5)[OF i] sorted_key_inj[OF srt i bg(1)] by blast
  qed
  ultimately show ?thesis
    by (simp add: temp_groups_def conj_commute conj_left_commute)
qed

lemma temp_groups_keep:
  assumes wf: "wf_tree t" and fb: "first_bg k t bg" and tmp: "\<not> is_temp_block_group h bg dp mp sp"
  shows "temp_groups h dp mp sp (filter (\<lambda>i. \<not> key_less (key i) (search_key k)) t) =
         temp_groups h dp mp sp
           (filter (\<lambda>i. \<not> key_less (key i) (search_key (objectid (key bg) + offset (key bg)))) t)"
proof -
  let ?k' = "objectid (key bg) + offset (key bg)"
  note F = bg_step_facts[OF wf fb]
  have "filter (\<lambda>i. \<not> key_less (key i) (search_key k) \<and> is_bg i \<and>
                  is_temp_block_group h i dp mp sp) t =
        filter (\<lambda>i. \<not> key_less (key i) (search_key ?k') \<and> is_bg i \<and>
                  is_temp_block_group h i dp mp sp) t"
  proof (rule filter_cong[OF refl])
    fix i assume i: "i \<in> set t"
    show "(\<not> key_less (key i) (search_key k) \<and> is_bg i \<and> is_temp_block_group h i dp mp sp) =
          (\<not> key_less (key i) (search_key ?k') \<and> is_bg i \<and> is_temp_block_group h i dp mp sp)"
      using F(4)[of i] F(5)[OF i] tmp by blast
  qed
  then show ?thesis
    by (simp add: temp_groups_def conj_commute conj_left_commute)
qed

lemma temp_groups_none:
  assumes "\<forall>i\<in>set t. is_bg i \<longrightarrow> key_less (key i) (search_key k)"
  shows "temp_groups h dp mp sp (filter (\<lambda>i. \<not> key_less (key i) (search_key k)) t) = []"
  using assms by (auto simp: temp_groups_def filter_empty_conv)

lemma cleanup_loop_correct:
  assumes "wf_tree (bg_tree s)"
  shows "\<exists>r s'. cleanup_loop h env dp mp sp k s = Some (r, s') \<and>
                 loop_post h env dp mp sp k s r s'"
  using assms
proof (induction "length (filter (\<lambda>i. \<not> key_less (key i) (search_key k)) (bg_tree s))"
         arbitrary: k s rule: less_induct)
  case less
  let ?t = "bg_tree s"
  from less.prems have srt: "sorted_wrt item_less ?t" by (simp add: wf_tree_def)
  have stopI: "loop_post h env dp mp sp k s r s"
    if "r < 0 \<longrightarrow> \<not> no_errors env"
       "0 \<le> r \<longrightarrow> r = 0 \<and> (\<forall>i\<in>set ?t. is_bg i \<longrightarrow> key_less (key i) (search_key k))" for r
    unfolding loop_post_def using that temp_groups_none[of ?t k h dp mp sp]
    by (intro exI[of _ "[]"]) (auto simp: ascending_def)
  from cleanup_loop_unfold[OF srt, of h env dp mp sp k]
  consider (stop) r where "cleanup_loop h env dp mp sp k s = Some (r, s)"
      "r < 0 \<longrightarrow> \<not> no_errors env"
      "0 \<le> r \<longrightarrow> r = 0 \<and> (\<forall>i\<in>set ?t. is_bg i \<longrightarrow> key_less (key i) (search_key k))"
    | (fail) bg where "first_bg k ?t bg" "is_temp_block_group h bg dp mp sp"
      "remove_block_group_err env (objectid (key bg)) (offset (key bg)) < 0"
      "cleanup_loop h env dp mp sp k s =
         Some (remove_block_group_err env (objectid (key bg)) (offset (key bg)), s)"
    | (rm) bg where "first_bg k ?t bg" "is_temp_block_group h bg dp mp sp"
      "cleanup_loop h env dp mp sp k s =
         cleanup_loop h env dp mp sp (objectid (key bg) + offset (key bg)) (remove_step h bg s)"
    | (keep) bg where "first_bg k ?t bg" "\<not> is_temp_block_group h bg dp mp sp"
      "cleanup_loop h env dp mp sp k s =
         cleanup_loop h env dp mp sp (objectid (key bg) + offset (key bg)) s"
    by (auto split: if_splits)
  then show ?case
  proof cases
    case stop
    with stopI[of r] show ?thesis by blast
  next
    case fail
    have "\<not> no_errors env" using fail(3) by (auto simp: no_errors_def not_le)
    with fail(3) fail(4) stopI show ?thesis by auto
  next
    case rm
    let ?k' = "objectid (key bg) + offset (key bg)"
    let ?s1 = "remove_step h bg s"
    note F = bg_step_facts[OF less.prems rm(1)]
    from rm(1) have bg: "bg \<in> set ?t" "is_bg bg" "\<not> key_less (key bg) (search_key k)"
      by (auto simp: first_bg_def)
    have t1: "bg_tree ?s1 = filter (\<lambda>i. key i \<noteq> key bg) ?t"
      by (simp add: remove_step_def)
    have wf1: "wf_tree (bg_tree ?s1)"
      unfolding t1 using less.prems by (rule wf_tree_filter)
    have dec: "length (filter (\<lambda>i. \<not> key_less (key i) (search_key ?k')) (bg_tree ?s1))
             < length (filter (\<lambda>i. \<not> key_less (key i) (search_key k)) ?t)"
      unfolding t1 using bg(1) bg(3) F(3) F(4)
      by (intro length_filter_strict[where x = bg]) auto
    from less.hyps[OF dec wf1] rm(3)
    obtain r s' where run: "cleanup_loop h env dp mp sp k s = Some (r, s')"
      and post: "loop_post h env dp mp sp ?k' ?s1 r s'"
      by auto
    from post obtain rs rest where
      tg: "temp_groups h dp mp sp
             (filter (\<lambda>i. \<not> key_less (key i) (search_key ?k')) (bg_tree ?s1)) = rs @ rest"
      and rs:
      "removed s' = removed ?s1 @ rs" "created s' = created ?s1"
      "bg_tree s' = filter (\<lambda>i. key i \<notin> key ` set rs) (bg_tree ?s1)"
      "allocation s' = foldl (\<lambda>a bg. ledger_remove h bg a) (allocation ?s1) rs"
      "set rs \<subseteq> set (bg_tree ?s1)"
      "\<forall>b\<in>set rs. is_bg b \<and> is_temp_block_group h b dp mp sp \<and> ?k' \<le> objectid (key b)"
      "ascending rs"
      "no_errors env \<longrightarrow> rest = []"
      "no_errors env \<longrightarrow> r = 0 \<and>
           (\<forall>i\<in>set (bg_tree s'). is_bg i \<and> \<not> key_less (key i) (search_key ?k')
               \<longrightarrow> \<not> is_temp_block_group h i dp mp sp)"
      unfolding loop_post_def by blast
    have kk: "k \<le> ?k'" using F(1) F(2) by simp
    have a: "removed s' = removed s @ bg # rs" using rs(1) by (simp add: remove_step_def)
    have b: "created s' = created s" using rs(2) by (simp add: remove_step_def)
    have c: "bg_tree s' = filter (\<lambda>i. key i \<notin> key ` set (bg # rs)) ?t"
      unfolding rs(3) t1 by (auto intro: filter_cong)
    have d: "allocation s' = foldl (\<lambda>a bg. ledger_remove h bg a) (allocation s) (bg # rs)"
      using rs(4) by (simp add: remove_step_def)
    have e: "set (bg # rs) \<subseteq> set ?t" using rs(5) bg(1) unfolding t1 by auto
    have f: "\<forall>b\<in>set (bg # rs). is_bg b \<and> is_temp_block_group h b dp mp sp \<and> k \<le> objectid (key b)"
      using rs(6) bg(2) rm(2) F(1) kk by auto
    have g: "ascending (bg # rs)"
      using rs(7) rs(6) F(2) by (auto simp: ascending_def)
    have i: "\<not> is_temp_block_group h i dp mp sp"
      if "no_errors env" "i \<in> set (bg_tree s')" "is_bg i" "\<not> key_less (key i) (search_key k)" for i
    proof -
      from that(2) have "i \<in> set ?t" "i \<noteq> bg" unfolding rs(3) t1 by auto
      with F(5) that have "\<not> key_less (key i) (search_key ?k')" by blast
      with rs(9) that show ?thesis by blast
    qed
    have j: "temp_groups h dp mp sp (filter (\<lambda>i. \<not> key_less (key i) (search_key k)) ?t) =
               (bg # rs) @ rest"
      using temp_groups_remove[OF less.prems rm(1) rm(2)] tg unfolding t1 by simp
    have "loop_post h env dp mp sp k s r s'"
      unfolding loop_post_def
      using a b c d e f g i j rs(8) rs(9) by (intro exI[of _ "bg # rs"]) blast
    with run show ?thesis by blast
  next
    case keep
    let ?k' = "objectid (key bg) + offset (key bg)"
    note F = bg_step_facts[OF less.prems keep(1)]
    from keep(1) have bg: "bg \<in> set ?t" "is_bg bg" "\<not> key_less (key bg) (search_key k)"
      by (auto simp: first_bg_def)
    have dec: "length (filter (\<lambda>i. \<not> key_less (key i) (search_key ?k')) ?t)
             < length (filter (\<lambda>i. \<not> key_less (key i) (search_key k)) ?t)"
      using length_filter_strict[where x = bg and xs = ?t and R = "\<lambda>_. True"
          and P = "\<lambda>i. \<not> key_less (key i) (search_key k)"
          and Q = "\<lambda>i. \<not> key_less (key i) (search_key ?k')"] bg(1) bg(3) F(3) F(4)
      by auto
    from less.hyps[OF dec less.prems] keep(3)
    obtain r s' where run: "cleanup_loop h env dp mp sp k s = Some (r, s')"
      and post: "loop_post h env dp mp sp ?k' s r s'"
      by auto
    from post obtain rs rest where
      tg: "temp_groups h dp mp sp
             (filter (\<lambda>i. \<not> key_less (key i) (search_key ?k')) ?t) = rs @ rest"
      and rs:
      "removed s' = removed s @ rs" "created s' = created s"
      "bg_tree s' = filter (\<lambda>i. key i \<notin> key ` set rs) ?t"
      "allocation s' = foldl (\<lambda>a bg. ledger_remove h bg a) (allocation s) rs"
      "set rs \<subseteq> set ?t"
      "\<forall>b\<in>set rs. is_bg b \<and> is_temp_block_group h b dp mp sp \<and> ?k' \<le> objectid (key b)"
      "ascending rs"
      "no_errors env \<longrightarrow> rest = []"
      "no_errors env \<longrightarrow> r = 0 \<and>
           (\<forall>i\<in>set (bg_tree s'). is_bg i \<and> \<not> key_less (key i) (search_key ?k')
               \<longrightarrow> \<not> is_temp_block_group h i dp mp sp)"
      unfolding loop_post_def by blast
    have kk: "k \<le> ?k'" using F(1) F(2) by simp
    have f: "\<forall>b\<in>set rs. is_bg b \<and> is_temp_block_group h b dp mp sp \<and> k \<le> objectid (key b)"
      using rs(6) kk by auto
    have i: "\<not> is_temp_block_group h i dp mp sp"
      if "no_errors env" "i \<in> set (bg_tree s')" "is_bg i" "\<not> key_less (key i) (search_key k)" for i
    proof (cases "i = bg")
      case True
      with keep(2) show ?thesis by simp
    next
      case False
      from that(2) have "i \<in> set ?t" unfolding rs(3) by auto
      with F(5) that False have "\<not> key_less (key i) (search_key ?k')" by blast
      with rs(9) that show ?thesis by blast
    qed
    have j: "temp_groups h dp mp sp (filter (\<lambda>i. \<not> key_less (key i) (search_key k)) ?t) =
               rs @ rest"
      using temp_groups_keep[OF less.prems keep(1) keep(2)] tg by simp
    have "loop_post h env dp mp sp k s r s'"
      unfolding loop_post_def
      using rs(1-5) f rs(7) i j rs(8) rs(9) by (intro exI[of _ rs]) blast
    with run show ?thesis by blast
  qed
qed

subsection \<open>A run of the cleaner\<close>

lemmas bg_type_defs =
  BTRFS_BLOCK_GROUP_DATA_def BTRFS_BLOCK_GROUP_METADATA_def BTRFS_BLOCK_GROUP_SYSTEM_def



lemma bg_not_below_zero: "is_bg i \<Longrightarrow> \<not> key_less (key i) (search_key 0)"
  by (simp add: key_less_def search_key_def is_bg_def)

lemma cleanup_temp_chunks_run:
  assumes wf: "wf_tree (bg_tree s)"
  shows "\<exists>r s' rs. cleanup_temp_chunks h env s dp mp sp d = Some (r, s') \<and>
           removed s' = removed s @ rs \<and> created s' = created s \<and>
           bg_tree s' = filter (\<lambda>i. key i \<notin> key ` set rs) (bg_tree s) \<and>
           allocation s' = foldl (\<lambda>a bg. ledger_remove h bg a) (allocation s) rs \<and>
           set rs \<subseteq> set (bg_tree s) \<and>
           (\<forall>bg\<in>set rs. is_bg bg \<and> is_temp_block_group h bg dp mp sp) \<and>
           ascending rs \<and>
           (\<exists>rest. temp_groups h dp mp sp (bg_tree s) = rs @ rest \<and>
              (no_errors env \<and> start_transaction_err env 488 = 0 \<longrightarrow> rest = [])) \<and>
           (no_errors env \<and> start_transaction_err env 488 = 0 \<longrightarrow>
              r = commit_transaction_ret env 556 \<and>
              (\<forall>i\<in>set (bg_tree s'). is_bg i \<longrightarrow> \<not> is_temp_block_group h i dp mp sp))"
proof (cases "start_transaction_err env 488 = 0")
  case False
  then have "cleanup_temp_chunks h env s dp mp sp d = Some (start_transaction_err env 488, s)"
    by (simp add: cleanup_temp_chunks_def)
  with False show ?thesis
    by (intro exI[of _ "start_transaction_err env 488"] exI[of _ s] exI[of _ "[]"])
       (simp add: ascending_def)
next
  case True
  from cleanup_loop_correct[OF wf, of h env dp mp sp 0]
  obtain r0 s1 where run: "cleanup_loop h env dp mp sp 0 s = Some (r0, s1)"
    and post: "loop_post h env dp mp sp 0 s r0 s1"
    by blast
  have tg0: "temp_groups h dp mp sp
       (filter (\<lambda>i. \<not> key_less (key i) (search_key 0)) (bg_tree s)) =
     temp_groups h dp mp sp (bg_tree s)"
    unfolding temp_groups_def filter_filter
    by (rule filter_cong[OF refl]) (auto simp: bg_not_below_zero)
  from post obtain rs rest where
    tg: "temp_groups h dp mp sp (bg_tree s) = rs @ rest" and rs:
    "removed s1 = removed s @ rs" "created s1 = created s"
    "bg_tree s1 = filter (\<lambda>i. key i \<notin> key ` set rs) (bg_tree s)"
    "allocation s1 = foldl (\<lambda>a bg. ledger_remove h bg a) (allocation s) rs"
    "set rs \<subseteq> set (bg_tree s)"
    "\<forall>b\<in>set rs. is_bg b \<and> is_temp_block_group h b dp mp sp \<and> 0 \<le> objectid (key b)"
    "ascending rs"
    "no_errors env \<longrightarrow> rest = []"
    "no_errors env \<longrightarrow> r0 = 0 \<and>
       (\<forall>i\<in>set (bg_tree s1). is_bg i \<and> \<not> key_less (key i) (search_key 0)
           \<longrightarrow> \<not> is_temp_block_group h i dp mp sp)"
    unfolding loop_post_def tg0 by blast
  obtain r s' where c: "btrfs_commit_transaction env 556 s1 = (r, s')"
    by (cases "btrfs_commit_transaction env 556 s1")
  then have s': "r = commit_transaction_ret env 556" "bg_tree s' = bg_tree s1"
    "allocation s' = allocation s1" "removed s' = removed s1" "created s' = created s1"
    by (auto simp: btrfs_commit_transaction_def split: if_splits)
  have "cleanup_temp_chunks h env s dp mp sp d = Some (r, s')"
    using True run c by (simp add: cleanup_temp_chunks_def)
  moreover have "\<forall>i\<in>set (bg_tree s'). is_bg i \<longrightarrow> \<not> is_temp_block_group h i dp mp sp"
    if "no_errors env"
    using rs(9) that s'(2) bg_not_below_zero by auto
  moreover have "\<exists>rest. temp_groups h dp mp sp (bg_tree s) = rs @ rest \<and>
              (no_errors env \<and> start_transaction_err env 488 = 0 \<longrightarrow> rest = [])"
    using tg rs(8) by blast
  ultimately show ?thesis
    using rs(1-7) s'
    by (intro exI[of _ r] exI[of _ s'] exI[of _ rs]) auto
qed




lemma system_group_temp:
  assumes "used i = 0" "flags i AND BTRFS_BLOCK_GROUP_TYPE_MASK h = BTRFS_BLOCK_GROUP_SYSTEM"
  shows "is_temp_block_group h i dp mp sp \<longleftrightarrow>
           flags i AND BTRFS_BLOCK_GROUP_PROFILE_MASK h \<noteq> sp AND BTRFS_BLOCK_GROUP_PROFILE_MASK h"
  using assms by (simp add: is_temp_block_group_def Let_def bg_type_defs)






text \<open>
  The call of the cleaner by \<^verbatim>\<open>pybtrfs_mkfs\<close> has the metadata profile as its system
  profile. A SYSTEM block group with nothing used, in a well-formed tree, is kept by
  that call when its profile bits equal those of the metadata profile; when no library
  call fails during the run, it is kept if and only if they are equal.
\<close>

lemma system_group_kept_iff:
  assumes "wf_tree (bg_tree s)" "i \<in> set (bg_tree s)" "is_bg i" "used i = 0"
    "flags i AND BTRFS_BLOCK_GROUP_TYPE_MASK h = BTRFS_BLOCK_GROUP_SYSTEM"
  shows "mkfs_cleanup h env a s =
           cleanup_temp_chunks h env s (mkfs_data_prof h a) (mkfs_meta_profile h a)
             (mkfs_meta_profile h a) (if no_discard a then 0 else 1) \<and>
         (\<exists>r s'. mkfs_cleanup h env a s = Some (r, s') \<and>
            (flags i AND BTRFS_BLOCK_GROUP_PROFILE_MASK h =
               mkfs_meta_profile h a AND BTRFS_BLOCK_GROUP_PROFILE_MASK h
             \<longrightarrow> i \<in> set (bg_tree s')) \<and>
            (no_errors env \<and> start_transaction_err env 488 = 0 \<longrightarrow>
               (i \<in> set (bg_tree s') \<longleftrightarrow>
                  flags i AND BTRFS_BLOCK_GROUP_PROFILE_MASK h =
                    mkfs_meta_profile h a AND BTRFS_BLOCK_GROUP_PROFILE_MASK h)))"
proof -
  let ?dp = "mkfs_data_prof h a" and ?mp = "mkfs_meta_profile h a"
  let ?same = "flags i AND BTRFS_BLOCK_GROUP_PROFILE_MASK h =
                 ?mp AND BTRFS_BLOCK_GROUP_PROFILE_MASK h"
  have call: "mkfs_cleanup h env a s =
      cleanup_temp_chunks h env s ?dp ?mp ?mp (if no_discard a then 0 else 1)"
    by (simp add: mkfs_cleanup_def)
  have temp: "is_temp_block_group h i ?dp ?mp ?mp \<longleftrightarrow> \<not> ?same"
    using system_group_temp[OF assms(4,5)] .
  from assms(1) have srt: "sorted_wrt item_less (bg_tree s)" by (simp add: wf_tree_def)
  from cleanup_temp_chunks_run[OF assms(1), of h env ?dp ?mp ?mp "if no_discard a then 0 else 1"]
  obtain r s' rs where run: "mkfs_cleanup h env a s = Some (r, s')"
    and p: "bg_tree s' = filter (\<lambda>i. key i \<notin> key ` set rs) (bg_tree s)"
      "set rs \<subseteq> set (bg_tree s)"
      "\<forall>bg\<in>set rs. is_bg bg \<and> is_temp_block_group h bg ?dp ?mp ?mp"
      "no_errors env \<and> start_transaction_err env 488 = 0 \<longrightarrow>
         (\<forall>i\<in>set (bg_tree s'). is_bg i \<longrightarrow> \<not> is_temp_block_group h i ?dp ?mp ?mp)"
    unfolding call by blast
  have keep: "i \<in> set (bg_tree s')" if ?same
  proof -
    have "key i \<notin> key ` set rs"
    proof
      assume "key i \<in> key ` set rs"
      then obtain bg where bg: "bg \<in> set rs" "key bg = key i" by auto
      with p(2) have "bg \<in> set (bg_tree s)" by auto
      with sorted_key_inj[OF srt this assms(2) bg(2)] have "bg = i" by simp
      with bg(1) p(3) temp that show False by auto
    qed
    with assms(2) show ?thesis unfolding p(1) by simp
  qed
  have gone: "?same" if "no_errors env" "start_transaction_err env 488 = 0" "i \<in> set (bg_tree s')"
    using p(4) that assms(3) temp by auto
  from run keep gone have "\<exists>r s'. mkfs_cleanup h env a s = Some (r, s') \<and>
            (?same \<longrightarrow> i \<in> set (bg_tree s')) \<and>
            (no_errors env \<and> start_transaction_err env 488 = 0 \<longrightarrow>
               (i \<in> set (bg_tree s') \<longleftrightarrow> ?same))"
    by (intro exI[of _ r] exI[of _ s']) blast
  with call show ?thesis by (rule conjI)
qed

subsection \<open>The planner and \<^verbatim>\<open>pybtrfs_mkfs\<close>\<close>

lemma create_one_raid_group_created:
  assumes "create_one_raid_group h env type s = (r, s')"
  shows "(created s' = created s \<and> r \<noteq> 0) \<or>
         (\<exists>bg. created s' = created s @ [bg] \<and> flags bg = type)"
  using assms
  by (auto simp: create_one_raid_group_def btrfs_make_block_group_def Let_def ENOSPC_def
      EINVAL_def split: prod.splits if_splits)

lemma create_one_raid_group_invalid:
  "\<not> valid_type_mask h type \<Longrightarrow> fst (create_one_raid_group h env type s) \<noteq> 0"
  by (auto simp: create_one_raid_group_def valid_type_mask_def Let_def ENOSPC_def EINVAL_def
      split: prod.splits if_splits)

lemma raid_groups_created:
  assumes "create_raid_groups h env dp mp is_mixed s = (r, s')"
  shows "\<exists>made. created s' = created s @ made \<and>
           map flags made = take (length made) (planned_raid_groups dp mp is_mixed) \<and>
           (r = 0 \<longrightarrow> map flags made = planned_raid_groups dp mp is_mixed)"
proof -
  let ?mf = "(if is_mixed then BTRFS_BLOCK_GROUP_METADATA OR BTRFS_BLOCK_GROUP_DATA
              else BTRFS_BLOCK_GROUP_METADATA) OR mp"
  obtain r2 s2 made2 where mid:
    "created s2 = created s @ made2"
    "map flags made2 = take (length made2)
        (if mp \<noteq> 0 then [BTRFS_BLOCK_GROUP_SYSTEM OR mp, ?mf] else [])"
    "r2 = 0 \<longrightarrow> map flags made2 =
        (if mp \<noteq> 0 then [BTRFS_BLOCK_GROUP_SYSTEM OR mp, ?mf] else [])"
    "create_raid_groups h env dp mp is_mixed s =
       (if r2 \<noteq> 0 then (r2, s2)
        else if \<not> is_mixed \<and> dp \<noteq> 0 then
          create_one_raid_group h env (BTRFS_BLOCK_GROUP_DATA OR dp) s2
        else (r2, s2))"
  proof (cases "mp = 0")
    case True
    show ?thesis
      by (rule that[of s "[]" 0]) (simp_all add: True create_raid_groups_def)
  next
    case False
    obtain r1 s1 where c1: "create_one_raid_group h env (BTRFS_BLOCK_GROUP_SYSTEM OR mp) s = (r1, s1)"
      by (cases "create_one_raid_group h env (BTRFS_BLOCK_GROUP_SYSTEM OR mp) s")
    show ?thesis
    proof (cases "r1 = 0")
      case r1: False
      from create_one_raid_group_created[OF c1]
      consider "created s1 = created s" | bg where "created s1 = created s @ [bg]"
        "flags bg = BTRFS_BLOCK_GROUP_SYSTEM OR mp" by auto
      then show ?thesis
      proof cases
        case 1
        show ?thesis
          by (rule that[of s1 "[]" r1]) (simp_all add: 1 False r1 c1 create_raid_groups_def)
      next
        case 2
        show ?thesis
          by (rule that[of s1 "[bg]" r1]) (simp_all add: 2 False r1 c1 create_raid_groups_def)
      qed
    next
      case r1: True
      from create_one_raid_group_created[OF c1] r1
      obtain bg1 where b1: "created s1 = created s @ [bg1]"
        "flags bg1 = BTRFS_BLOCK_GROUP_SYSTEM OR mp" by auto
      obtain r2 s2 where c2: "create_one_raid_group h env ?mf s1 = (r2, s2)"
        by (cases "create_one_raid_group h env ?mf s1")
      from create_one_raid_group_created[OF c2]
      consider "created s2 = created s1" "r2 \<noteq> 0" | bg2 where "created s2 = created s1 @ [bg2]"
        "flags bg2 = ?mf" by auto
      then show ?thesis
      proof cases
        case 1
        show ?thesis
          by (rule that[of s2 "[bg1]" r2])
             (simp_all add: 1 b1 False r1 c1 c2 create_raid_groups_def Let_def)
      next
        case 2
        show ?thesis
          by (rule that[of s2 "[bg1, bg2]" r2])
             (simp_all add: 2 b1 False r1 c1 c2 create_raid_groups_def Let_def)
      qed
    qed
  qed
  have len: "length made2 \<le> 2"
    using arg_cong[OF mid(2), of length] by (auto split: if_splits)
  show ?thesis
  proof (cases "r2 = 0 \<and> \<not> is_mixed \<and> dp \<noteq> 0")
    case False
    with mid assms have "r = r2" "s' = s2" by (auto split: if_splits)
    with mid False len show ?thesis
      by (intro exI[of _ made2]) (auto simp: planned_raid_groups_def split: if_splits)
  next
    case True
    with mid assms have c3: "create_one_raid_group h env (BTRFS_BLOCK_GROUP_DATA OR dp) s2 = (r, s')"
      by simp
    from True mid(3) have full: "map flags made2 =
        (if mp \<noteq> 0 then [BTRFS_BLOCK_GROUP_SYSTEM OR mp, ?mf] else [])" by simp
    from create_one_raid_group_created[OF c3]
    consider "created s' = created s2" "r \<noteq> 0" | bg3 where "created s' = created s2 @ [bg3]"
      "flags bg3 = BTRFS_BLOCK_GROUP_DATA OR dp" by auto
    then show ?thesis
    proof cases
      case 1
      with mid(1) full True show ?thesis
        by (intro exI[of _ made2]) (auto simp: planned_raid_groups_def)
    next
      case 2
      with mid(1) full True show ?thesis
        by (intro exI[of _ "made2 @ [bg3]"]) (auto simp: planned_raid_groups_def)
    qed
  qed
qed

lemma raid_groups_invalid:
  assumes "g \<in> set (planned_raid_groups dp mp is_mixed)" "\<not> valid_type_mask h g"
  shows "fst (create_raid_groups h env dp mp is_mixed s) \<noteq> 0"
proof
  assume z: "fst (create_raid_groups h env dp mp is_mixed s) = 0"
  let ?mf = "(if is_mixed then BTRFS_BLOCK_GROUP_METADATA OR BTRFS_BLOCK_GROUP_DATA
              else BTRFS_BLOCK_GROUP_METADATA) OR mp"
  have all: "fst (create_one_raid_group h env t s0) \<noteq> 0 \<or> valid_type_mask h t" for t s0
    using create_one_raid_group_invalid by blast
  from z have "\<forall>t\<in>set (planned_raid_groups dp mp is_mixed). valid_type_mask h t"
    using all[of "BTRFS_BLOCK_GROUP_SYSTEM OR mp" s]
      all[of ?mf "snd (create_one_raid_group h env (BTRFS_BLOCK_GROUP_SYSTEM OR mp) s)"]
      all[of "BTRFS_BLOCK_GROUP_DATA OR dp" s]
      all[of "BTRFS_BLOCK_GROUP_DATA OR dp"
        "snd (create_one_raid_group h env ?mf
           (snd (create_one_raid_group h env (BTRFS_BLOCK_GROUP_SYSTEM OR mp) s)))"]
    by (auto simp: create_raid_groups_def planned_raid_groups_def Let_def
        split: prod.splits if_splits)
  with assms show False by blast
qed

lemma run_steps_fail:
  "f \<in> set fs \<Longrightarrow> (\<And>s. fst (f s) \<noteq> 0) \<Longrightarrow> fst (run_steps fs s) \<noteq> 0"
proof (induction fs arbitrary: s)
  case Nil
  then show ?case by simp
next
  case (Cons g gs)
  show ?case
  proof (cases "g s")
    case (Pair r s1)
    show ?thesis
    proof (cases "r = 0")
      case True
      with Cons.prems Pair have "f \<in> set gs"
        by (metis fst_conv set_ConsD)
      from Cons.IH[OF this Cons.prems(2), of s1] Pair True show ?thesis by simp
    next
      case False
      with Pair show ?thesis by simp
    qed
  qed
qed

lemma attach_devices_fail:
  "i \<in> set is \<Longrightarrow> ret (prepare_ctx host a i) \<noteq> 0 \<Longrightarrow> fst (attach_devices host a is s) \<noteq> 0"
  by (induction "is") auto

lemma close_fds_set:
  "set (close_fds host a is) = Close_fd ` {i \<in> set is. 0 \<le> fd (prepare_ctx host a i)}"
  by (induction "is") (auto simp: close_fds_def)

lemma out_close_result:
  "out_close host a r s =
     (r, s\<lparr>events := events s @ close_fds host a [0..<device_count a] @ [Close_all_devices]\<rparr>)"
  by (simp add: out_close_def out_free_def)

lemma out_ctree_result:
  "out_ctree host a r s =
     (if r = 0 \<and> close_ctree_ret host \<noteq> 0 then close_ctree_ret host else r,
      s\<lparr>events := events s @ Close_ctree # close_fds host a [0..<device_count a]
                     @ [Close_all_devices]\<rparr>)"
  by (simp add: out_ctree_def out_close_result)

lemma mkfs_joined_fails:
  assumes "\<And>s. fst (run_steps (mkfs_steps h env host a) s) \<noteq> 0"
  shows "\<exists>r w pre. mkfs_joined h env host a s = Some (r, w) \<and> r \<noteq> 0 \<and>
           events w = pre @ close_fds host a [0..<device_count a] @ [Close_all_devices]"
proof -
  let ?big = "byte_count a \<noteq> 0 \<and> byte_count a > dev_byte_count (prepare_ctx host a 0)"
  let ?s2 = "s\<lparr>events := events s @ [Make_btrfs]\<rparr>"
  consider (dev0) "ret (prepare_ctx host a 0) \<noteq> 0"
    | (size) "ret (prepare_ctx host a 0) = 0" "?big"
    | (make) "ret (prepare_ctx host a 0) = 0" "\<not> ?big" "make_btrfs_ret host \<noteq> 0"
    | (opn) "ret (prepare_ctx host a 0) = 0" "\<not> ?big" "make_btrfs_ret host = 0"
        "open_ctree_fs_info host = None"
    | (steps) t where "ret (prepare_ctx host a 0) = 0" "\<not> ?big" "make_btrfs_ret host = 0"
        "open_ctree_fs_info host = Some t"
    by (cases "open_ctree_fs_info host") auto
  then show ?thesis
  proof cases
    case dev0
    then have "mkfs_joined h env host a s = Some (out_close host a (ret (prepare_ctx host a 0)) s)"
      by (simp add: mkfs_joined_def)
    with dev0 show ?thesis by (simp add: out_close_result)
  next
    case size
    then have "mkfs_joined h env host a s = Some (out_close host a (- ENOSPC) s)"
      by (simp add: mkfs_joined_def)
    then show ?thesis by (simp add: out_close_result ENOSPC_def)
  next
    case make
    then have "mkfs_joined h env host a s = Some (out_close host a (make_btrfs_ret host) ?s2)"
      unfolding mkfs_joined_def Let_def by (simp only: if_True if_False simp_thms)
    with make(3) show ?thesis by (simp add: out_close_result)
  next
    case opn
    then have "mkfs_joined h env host a s = Some (out_close host a (- EIO) ?s2)"
      unfolding mkfs_joined_def Let_def by (simp only: if_True if_False simp_thms option.case)
    then show ?thesis by (simp add: out_close_result EIO_def)
  next
    case steps
    let ?s3 = "?s2\<lparr>bg_tree := t, events := events ?s2 @ [Open_ctree]\<rparr>"
    obtain r s3 where rs: "run_steps (mkfs_steps h env host a) ?s3 = (r, s3)"
      by (cases "run_steps (mkfs_steps h env host a) ?s3")
    with assms[of ?s3] have r: "r \<noteq> 0" by simp
    have "mkfs_joined h env host a s = Some (out_ctree host a r s3)"
      unfolding mkfs_joined_def Let_def using steps rs r
      by (simp only: if_True if_False simp_thms option.case prod.case)
    with r show ?thesis
      by (simp add: out_ctree_result)
  qed
qed

lemma mkfs_fails:
  assumes "\<And>s. fst (run_steps (mkfs_steps h env host a) s) \<noteq> 0"
  shows "\<exists>r w. pybtrfs_mkfs h env host a = Some (r, w) \<and> r \<noteq> 0"
proof -
  let ?n = "device_count a"
  consider (val) "\<not> validation_ok host a"
    | (mem) "validation_ok host a" "\<not> calloc_ok host"
    | (thr) i where "validation_ok host a" "calloc_ok host"
        "find (\<lambda>i. pthread_create_ret host i \<noteq> 0) [0..<?n] = Some i"
    | (ok) "validation_ok host a" "launch_ok host a"
    by (cases "find (\<lambda>i. pthread_create_ret host i \<noteq> 0) [0..<?n]") (auto simp: launch_ok_def)
  then show ?thesis
  proof cases
    case val
    then show ?thesis
      by (auto simp: pybtrfs_mkfs_def validation_ok_def Let_def out_free_def EINVAL_def)
  next
    case mem
    then show ?thesis
      by (auto simp: pybtrfs_mkfs_def validation_ok_def Let_def out_free_def ENOMEM_def)
  next
    case thr
    from thr(3) have "pthread_create_ret host i \<noteq> 0"
      by (auto simp: find_Some_iff)
    with thr show ?thesis
      by (auto simp: pybtrfs_mkfs_def validation_ok_def Let_def out_free_def)
  next
    case ok
    then have "pybtrfs_mkfs h env host a =
      mkfs_joined h env host a
        (\<lparr>bg_tree = [],
          allocation = \<lparr>data = 0, metadata = 0, mixed = 0, system = 0, remap = 0\<rparr>,
          created = [], removed = [],
          events = map Launch [0..<?n] @ map Join [0..<?n]\<rparr>)"
      by (auto simp: pybtrfs_mkfs_def validation_ok_def launch_ok_def Let_def)
    with mkfs_joined_fails[OF assms] show ?thesis by metis
  qed
qed

lemma mkfs_prepared:
  "validation_ok host a \<Longrightarrow> launch_ok host a \<Longrightarrow>
   pybtrfs_mkfs h env host a = mkfs_joined h env host a (joined_state a)"
  by (auto simp: pybtrfs_mkfs_def validation_ok_def launch_ok_def Let_def joined_state_def)

lemma mkfs_joined_dev0:
  "ret (prepare_ctx host a 0) \<noteq> 0 \<Longrightarrow>
   mkfs_joined h env host a s = Some (out_close host a (ret (prepare_ctx host a 0)) s)"
  by (simp add: mkfs_joined_def)

lemma mkfs_joined_size:
  "ret (prepare_ctx host a 0) = 0 \<Longrightarrow> byte_count a \<noteq> 0 \<Longrightarrow>
   byte_count a > dev_byte_count (prepare_ctx host a 0) \<Longrightarrow>
   mkfs_joined h env host a s = Some (out_close host a (- ENOSPC) s)"
  by (simp add: mkfs_joined_def)

lemma run_steps_append:
  "run_steps (xs @ ys) s =
     (case run_steps xs s of (r, s1) \<Rightarrow> if r \<noteq> 0 then (r, s1) else run_steps ys s1)"
  by (induction xs arbitrary: s) (auto split: prod.splits)

lemma attach_devices_first:
  assumes "list_all (\<lambda>j. ret (prepare_ctx host a j) = 0 \<and>
              (device_already_in_root host j \<noteq> 0 \<or> add_to_fsid_ret host j = 0)) pre"
    and "ret (prepare_ctx host a i) \<noteq> 0"
  shows "attach_devices host a (pre @ i # post) s = (ret (prepare_ctx host a i), s)"
  using assms by (induction pre) auto

lemma upt_split: "0 < i \<Longrightarrow> i < n \<Longrightarrow> [1..<n] = [1..<i] @ i # [Suc i..<n]"
proof -
  assume a: "0 < i" "i < n"
  then obtain k where k: "n = i + k" using less_imp_add_positive by blast
  have "[1..<i + k] = [1..<i] @ [i..<i + k]"
    using a(1) by (intro upt_add_eq_append) simp
  moreover have "[i..<n] = i # [Suc i..<n]" using a(2) by (rule upt_conv_Cons)
  ultimately show ?thesis using k by simp
qed

lemma mkfs_steps_split:
  "mkfs_steps h env host a =
     bootstrap_steps h env host a @ attach_devices host a [1..<device_count a] #
       drop 10 (mkfs_steps h env host a)"
  by (simp add: mkfs_steps_def bootstrap_steps_def)

lemma mkfs_joined_opened:
  assumes "ret (prepare_ctx host a 0) = 0"
    "\<not> (byte_count a \<noteq> 0 \<and> byte_count a > dev_byte_count (prepare_ctx host a 0))"
    "make_btrfs_ret host = 0" "open_ctree_fs_info host = Some t"
  shows "mkfs_joined h env host a (joined_state a) =
     (case run_steps (mkfs_steps h env host a) (opened_state a t) of
        (r, s3) \<Rightarrow>
          if r \<noteq> 0 then Some (out_ctree host a r s3)
          else (case mkfs_cleanup h env a s3 of
                  None \<Rightarrow> None
                | Some (r, s4) \<Rightarrow> Some (out_ctree host a r s4)))"
proof -
  have "(joined_state a)\<lparr>events := events (joined_state a) @ [Make_btrfs]\<rparr>
          \<lparr>bg_tree := t,
            events := events ((joined_state a)\<lparr>events := events (joined_state a) @ [Make_btrfs]\<rparr>)
                        @ [Open_ctree]\<rparr> = opened_state a t"
    by (simp add: opened_state_def)
  then show ?thesis
    unfolding mkfs_joined_def Let_def using assms
    by (simp only: if_True if_False simp_thms option.case)
qed

lemma create_metadata_block_groups_commit:
  assumes "create_metadata_block_groups h env host incompat s = (r, s')"
  shows "events s' = events s \<or> events s' = events s @ [Commit 170]"
  using assms
  by (auto simp: create_metadata_block_groups_def btrfs_make_block_group_def
      btrfs_commit_transaction_def Let_def
      split: prod.splits if_splits)

lemma create_metadata_block_groups_events:
  "\<exists>ev. events (snd (create_metadata_block_groups h env host incompat s)) = events s @ ev"
  using create_metadata_block_groups_commit[of h env host incompat s]
  by (cases "create_metadata_block_groups h env host incompat s") auto

lemma create_data_block_groups_events:
  "\<exists>ev. events (snd (create_data_block_groups env host m s)) = events s @ ev"
  by (auto simp: create_data_block_groups_def btrfs_make_block_group_def Let_def
      split: prod.splits if_splits)

lemma simple_step_events:
  "\<exists>ev. events (snd (opaque host st s)) = events s @ ev"
  "\<exists>ev. events (snd (skip s)) = events s @ ev"
  "\<exists>ev. events (snd (btrfs_start_transaction env l s)) = events s @ ev"
  "\<exists>ev. events (snd (btrfs_commit_transaction env l s)) = events s @ ev"
  by (simp_all add: opaque_def skip_def btrfs_start_transaction_def btrfs_commit_transaction_def)

lemma run_steps_events:
  assumes "\<forall>f\<in>set fs. \<forall>s. \<exists>ev. events (snd (f s)) = events s @ ev"
  shows "\<exists>ev. events (snd (run_steps fs s)) = events s @ ev"
  using assms
proof (induction fs arbitrary: s)
  case Nil
  then show ?case by simp
next
  case (Cons f fs)
  obtain r s1 where f: "f s = (r, s1)" by (cases "f s")
  from Cons.prems obtain ev1 where e1: "events (snd (f s)) = events s @ ev1"
    by (meson list.set_intros(1))
  show ?case
  proof (cases "r = 0")
    case False
    with f e1 show ?thesis by simp
  next
    case True
    from Cons.IH[of s1] Cons.prems obtain ev2 where "events (snd (run_steps fs s1)) = events s1 @ ev2"
      by auto
    with f e1 True show ?thesis by simp
  qed
qed

lemma bootstrap_steps_events:
  "\<exists>ev. events (snd (run_steps (bootstrap_steps h env host a) s)) = events s @ ev"
proof (rule run_steps_events, intro ballI allI)
  fix f s0
  assume "f \<in> set (bootstrap_steps h env host a)"
  then consider "f = create_metadata_block_groups h env host (mkfs_incompat_flags h a)"
    | st where "f = opaque host st" | "f = skip" | l where "f = btrfs_start_transaction env l"
    | "f = create_data_block_groups env host (mixed_arg a)"
    | l where "f = btrfs_commit_transaction env l"
    unfolding bootstrap_steps_def mkfs_steps_def
    by (simp split: if_splits) blast+
  then show "\<exists>ev. events (snd (f s0)) = events s0 @ ev"
    by cases
       (simp_all only: create_metadata_block_groups_events create_data_block_groups_events
          simple_step_events)
qed

lemma later_device_failure:
  assumes i: "0 < i" "i < device_count a" and f: "ret (prepare_ctx host a i) \<noteq> 0"
    and first: "\<forall>j<i. ret (prepare_ctx host a j) = 0"
    and reach: "attach_reached h env host a" and added: "added_before host i"
  shows "\<exists>w. mkfs_joined h env host a (joined_state a) = Some (ret (prepare_ctx host a i), w) \<and>
           Make_btrfs \<in> set (events w)"
proof -
  let ?n = "device_count a"
  from reach obtain t where c: "ret (prepare_ctx host a 0) = 0"
      "\<not> (byte_count a \<noteq> 0 \<and> byte_count a > dev_byte_count (prepare_ctx host a 0))"
      "make_btrfs_ret host = 0" "open_ctree_fs_info host = Some t"
      "fst (run_steps (bootstrap_steps h env host a) (opened_state a t)) = 0"
    by (auto simp: attach_reached_def split: option.splits)
  obtain s1 where b: "run_steps (bootstrap_steps h env host a) (opened_state a t) = (0, s1)"
    using c(5) by (cases "run_steps (bootstrap_steps h env host a) (opened_state a t)") auto
  have pre: "list_all (\<lambda>j. ret (prepare_ctx host a j) = 0 \<and>
              (device_already_in_root host j \<noteq> 0 \<or> add_to_fsid_ret host j = 0)) [1..<i]"
    using first added by (auto simp: added_before_def list_all_iff)
  have att: "attach_devices host a [1..<?n] s1 = (ret (prepare_ctx host a i), s1)"
    unfolding upt_split[OF i] using pre f by (rule attach_devices_first)
  have "run_steps (bootstrap_steps h env host a @ attach_devices host a [1..<?n] #
            drop 10 (mkfs_steps h env host a)) (opened_state a t) =
          (ret (prepare_ctx host a i), s1)"
    unfolding run_steps_append b
    using f by (simp only: prod.case run_steps.simps att if_True if_False simp_thms)
  then have "run_steps (mkfs_steps h env host a) (opened_state a t) =
          (ret (prepare_ctx host a i), s1)"
    by (subst mkfs_steps_split)
  with mkfs_joined_opened[OF c(1-4), of h env] f
  have run: "mkfs_joined h env host a (joined_state a) =
           Some (out_ctree host a (ret (prepare_ctx host a i)) s1)"
    by simp
  from bootstrap_steps_events[of h env host a "opened_state a t"] b
  obtain ev where "events s1 = events (opened_state a t) @ ev" by auto
  then have "Make_btrfs \<in> set (events s1)" by (simp add: opened_state_def)
  with run f show ?thesis by (simp add: out_ctree_result)
qed

lemma mkfs_runs_cleaner:
  assumes "validation_ok host a" "launch_ok host a" "ret (prepare_ctx host a 0) = 0"
    "\<not> (byte_count a \<noteq> 0 \<and> byte_count a > dev_byte_count (prepare_ctx host a 0))"
    "make_btrfs_ret host = 0" "open_ctree_fs_info host = Some t"
    "run_steps (mkfs_steps h env host a) (opened_state a t) = (0, s3)"
  shows "pybtrfs_mkfs h env host a =
           (case cleanup_temp_chunks h env s3 (mkfs_data_prof h a) (mkfs_meta_profile h a)
                   (mkfs_meta_profile h a) (if no_discard a then 0 else 1) of
              None \<Rightarrow> None
            | Some (r, s4) \<Rightarrow> Some (out_ctree host a r s4))"
  using mkfs_prepared[OF assms(1,2), of h env] mkfs_joined_opened[OF assms(3-6), of h env]
    assms(7)
  by (simp add: mkfs_cleanup_def)

lemma system_group_kept_by_mkfs:
  assumes "validation_ok host a" "launch_ok host a" "ret (prepare_ctx host a 0) = 0"
    "\<not> (byte_count a \<noteq> 0 \<and> byte_count a > dev_byte_count (prepare_ctx host a 0))"
    "make_btrfs_ret host = 0" "open_ctree_fs_info host = Some t"
    "run_steps (mkfs_steps h env host a) (opened_state a t) = (0, s3)"
    and "wf_tree (bg_tree s3)" "i \<in> set (bg_tree s3)" "is_bg i" "used i = 0"
    "flags i AND BTRFS_BLOCK_GROUP_TYPE_MASK h = BTRFS_BLOCK_GROUP_SYSTEM"
  shows "\<exists>r w. pybtrfs_mkfs h env host a = Some (r, w) \<and>
           (flags i AND BTRFS_BLOCK_GROUP_PROFILE_MASK h =
              mkfs_meta_profile h a AND BTRFS_BLOCK_GROUP_PROFILE_MASK h
            \<longrightarrow> i \<in> set (bg_tree w)) \<and>
           (no_errors env \<and> start_transaction_err env 488 = 0 \<longrightarrow>
              (i \<in> set (bg_tree w) \<longleftrightarrow>
                 flags i AND BTRFS_BLOCK_GROUP_PROFILE_MASK h =
                   mkfs_meta_profile h a AND BTRFS_BLOCK_GROUP_PROFILE_MASK h))"
proof -
  note S = system_group_kept_iff[OF assms(8-12), of env a]
  from S[THEN conjunct2]
  obtain r s4 where c0: "mkfs_cleanup h env a s3 = Some (r, s4)"
    and k: "flags i AND BTRFS_BLOCK_GROUP_PROFILE_MASK h =
              mkfs_meta_profile h a AND BTRFS_BLOCK_GROUP_PROFILE_MASK h
            \<longrightarrow> i \<in> set (bg_tree s4)"
      "no_errors env \<and> start_transaction_err env 488 = 0 \<longrightarrow>
              (i \<in> set (bg_tree s4) \<longleftrightarrow>
                 flags i AND BTRFS_BLOCK_GROUP_PROFILE_MASK h =
                   mkfs_meta_profile h a AND BTRFS_BLOCK_GROUP_PROFILE_MASK h)"
    by blast
  from c0 have c: "cleanup_temp_chunks h env s3 (mkfs_data_prof h a) (mkfs_meta_profile h a)
                   (mkfs_meta_profile h a) (if no_discard a then 0 else 1) = Some (r, s4)"
    by (simp add: mkfs_cleanup_def)
  have t: "bg_tree (snd (out_ctree host a r s4)) = bg_tree s4"
    by (simp add: out_ctree_result)
  have "pybtrfs_mkfs h env host a = Some (out_ctree host a r s4)"
    using mkfs_runs_cleaner[OF assms(1-7)] c by simp
  then have "pybtrfs_mkfs h env host a = Some (fst (out_ctree host a r s4), snd (out_ctree host a r s4))"
    by simp
  with k t show ?thesis
    by (intro exI[of _ "fst (out_ctree host a r s4)"] exI[of _ "snd (out_ctree host a r s4)"])
       simp
qed

text \<open>
  C8 (as amended). When \<^verbatim>\<open>pybtrfs_mkfs\<close> reaches the cleaner, it calls it with the
  metadata profile as the system profile, and its result is the cleaner's, passed
  through \<^verbatim>\<open>out_ctree\<close>. A SYSTEM block group with nothing used, in the well-formed
  tree of that state, is in the tree that \<^verbatim>\<open>pybtrfs_mkfs\<close> leaves when its profile bits
  equal those of the metadata profile; when no library call of the cleaner fails, it is
  in that tree if and only if they are equal.
\<close>

theorem system_group_survival:
  assumes "cleaner_reached h env host a s3"
    and "wf_tree (bg_tree s3)" "i \<in> set (bg_tree s3)" "is_bg i" "used i = 0"
    "flags i AND BTRFS_BLOCK_GROUP_TYPE_MASK h = BTRFS_BLOCK_GROUP_SYSTEM"
  shows "pybtrfs_mkfs h env host a =
           (case cleanup_temp_chunks h env s3 (mkfs_data_prof h a) (mkfs_meta_profile h a)
                   (mkfs_meta_profile h a) (if no_discard a then 0 else 1) of
              None \<Rightarrow> None
            | Some (r, s4) \<Rightarrow> Some (out_ctree host a r s4)) \<and>
         (\<exists>r w. pybtrfs_mkfs h env host a = Some (r, w) \<and>
            (flags i AND BTRFS_BLOCK_GROUP_PROFILE_MASK h =
               mkfs_meta_profile h a AND BTRFS_BLOCK_GROUP_PROFILE_MASK h
             \<longrightarrow> i \<in> set (bg_tree w)) \<and>
            (no_errors env \<and> start_transaction_err env 488 = 0 \<longrightarrow>
               (i \<in> set (bg_tree w) \<longleftrightarrow>
                  flags i AND BTRFS_BLOCK_GROUP_PROFILE_MASK h =
                    mkfs_meta_profile h a AND BTRFS_BLOCK_GROUP_PROFILE_MASK h)))"
proof -
  from assms(1) obtain t where c: "validation_ok host a" "launch_ok host a"
      "ret (prepare_ctx host a 0) = 0"
      "\<not> (byte_count a \<noteq> 0 \<and> byte_count a > dev_byte_count (prepare_ctx host a 0))"
      "make_btrfs_ret host = 0" "open_ctree_fs_info host = Some t"
      "run_steps (mkfs_steps h env host a) (opened_state a t) = (0, s3)"
    by (auto simp: cleaner_reached_def split: option.splits)
  from mkfs_runs_cleaner[OF c] system_group_kept_by_mkfs[OF c assms(2-6)]
  show ?thesis by (rule conjI)
qed

theorem system_group_survival_witness:
  "cleaner_reached hdr0 env_ok host_ok args_one
     (snd (run_steps (mkfs_steps hdr0 env_ok host_ok args_one)
        (opened_state args_one [bg_item 1048576 4194304 2 0]))) \<and>
   bg_tree (snd (run_steps (mkfs_steps hdr0 env_ok host_ok args_one)
        (opened_state args_one [bg_item 1048576 4194304 2 0]))) =
     [bg_item 1048576 4194304 2 0, bg_item 5242880 1073741824 4 0,
      bg_item 1078984704 1073741824 1 0, bg_item 2152726528 1073741824 34 0,
      bg_item 3226468352 1073741824 36 0] \<and>
   no_errors env_ok \<and> start_transaction_err env_ok 488 = 0 \<and>
   mkfs_meta_profile hdr0 args_one AND BTRFS_BLOCK_GROUP_PROFILE_MASK hdr0 = 32 \<and>
   (\<exists>r w. pybtrfs_mkfs hdr0 env_ok host_ok args_one = Some (r, w) \<and>
      bg_item 1048576 4194304 2 0 \<notin> set (bg_tree w) \<and>
      bg_item 2152726528 1073741824 34 0 \<in> set (bg_tree w))"
proof -
  let ?s3 = "snd (run_steps (mkfs_steps hdr0 env_ok host_ok args_one)
        (opened_state args_one [bg_item 1048576 4194304 2 0]))"
  let ?i = "bg_item 1048576 4194304 2 0" and ?j = "bg_item 2152726528 1073741824 34 0"
  have run: "fst (run_steps (mkfs_steps hdr0 env_ok host_ok args_one)
        (opened_state args_one [bg_item 1048576 4194304 2 0])) = 0"
    and tree: "bg_tree ?s3 =
     [bg_item 1048576 4194304 2 0, bg_item 5242880 1073741824 4 0,
      bg_item 1078984704 1073741824 1 0, bg_item 2152726528 1073741824 34 0,
      bg_item 3226468352 1073741824 36 0]"
    by (simp_all add: opened_state_def joined_state_def mkfs_defs example_defs const_defs
        word_sless_alt upt_rec)
  have reach: "cleaner_reached hdr0 env_ok host_ok args_one ?s3"
    unfolding cleaner_reached_def using run
    by (simp add: prod_eq_iff validation_ok_def launch_ok_def prepare_ctx_def
        prepare_one_device_def host_ok_def args_one_def find_None_iff)
  have wf: "wf_tree (bg_tree ?s3)"
    unfolding tree
    by (simp add: wf_tree_def bg_item_def item_less_def key_less_def is_bg_def bg_end_def
        BTRFS_BLOCK_GROUP_ITEM_KEY_def)
  have mem: "?i \<in> set (bg_tree ?s3)" "?j \<in> set (bg_tree ?s3)"
    unfolding tree by simp_all
  have it: "is_bg ?i" "used ?i = 0"
    "flags ?i AND BTRFS_BLOCK_GROUP_TYPE_MASK hdr0 = BTRFS_BLOCK_GROUP_SYSTEM"
    and jt: "is_bg ?j" "used ?j = 0"
    "flags ?j AND BTRFS_BLOCK_GROUP_TYPE_MASK hdr0 = BTRFS_BLOCK_GROUP_SYSTEM"
    by (simp_all add: bg_item_def is_bg_def hdr0_def bg_type_defs)
  have ne: "no_errors env_ok" "start_transaction_err env_ok 488 = 0"
    by (simp_all add: no_errors_def env_ok_def)
  have mp: "mkfs_meta_profile hdr0 args_one AND BTRFS_BLOCK_GROUP_PROFILE_MASK hdr0 = 32"
    by (simp add: hdr0_def mkfs_meta_profile_def args_one_def word_sless_alt)
  have pi: "flags ?i AND BTRFS_BLOCK_GROUP_PROFILE_MASK hdr0 \<noteq>
              mkfs_meta_profile hdr0 args_one AND BTRFS_BLOCK_GROUP_PROFILE_MASK hdr0"
    and pj: "flags ?j AND BTRFS_BLOCK_GROUP_PROFILE_MASK hdr0 =
              mkfs_meta_profile hdr0 args_one AND BTRFS_BLOCK_GROUP_PROFILE_MASK hdr0"
    unfolding mp by (simp_all add: bg_item_def hdr0_def)
  from system_group_survival[OF reach wf mem(1) it] ne pi
  obtain r w where a: "pybtrfs_mkfs hdr0 env_ok host_ok args_one = Some (r, w)"
    "?i \<notin> set (bg_tree w)"
    by blast
  from system_group_survival[OF reach wf mem(2) jt] pj
  obtain r' w' where b: "pybtrfs_mkfs hdr0 env_ok host_ok args_one = Some (r', w')"
    "?j \<in> set (bg_tree w')"
    by blast
  from a b have "\<exists>r w. pybtrfs_mkfs hdr0 env_ok host_ok args_one = Some (r, w) \<and>
      ?i \<notin> set (bg_tree w) \<and> ?j \<in> set (bg_tree w)"
    by auto
  with reach tree ne mp show ?thesis by (intro conjI)
qed

text \<open>
  C2 (as amended). When every worker was launched and the preparation of some device
  failed, \<^verbatim>\<open>pybtrfs_mkfs\<close> fails and closes the descriptor of every device that was
  opened. When it is the first device that failed, the operation fails with that
  device's error, before \<^verbatim>\<open>make_btrfs\<close> and before any commit. When the first device
  that failed is a later one, the run reaches the attach loop and the loop gets past the
  devices before it, the operation fails with that device's error, after
  \<^verbatim>\<open>make_btrfs\<close>.
\<close>

theorem device_failure_aborts:
  assumes "validation_ok host a" "launch_ok host a" "i < device_count a"
    "ret (prepare_ctx host a i) \<noteq> 0"
  shows "\<exists>r w. pybtrfs_mkfs h env host a = Some (r, w) \<and> r \<noteq> 0 \<and>
           (\<forall>j<device_count a. 0 \<le> fd (prepare_ctx host a j) \<longrightarrow> Close_fd j \<in> set (events w)) \<and>
           (ret (prepare_ctx host a 0) \<noteq> 0 \<longrightarrow>
              r = ret (prepare_ctx host a 0) \<and> Make_btrfs \<notin> set (events w) \<and>
              (\<forall>l. Commit l \<notin> set (events w))) \<and>
           (0 < i \<and> (\<forall>j<i. ret (prepare_ctx host a j) = 0) \<and>
            attach_reached h env host a \<and> added_before host i \<longrightarrow>
              r = ret (prepare_ctx host a i) \<and> Make_btrfs \<in> set (events w))"
proof (cases "ret (prepare_ctx host a 0) = 0")
  case False
  let ?w = "snd (out_close host a (ret (prepare_ctx host a 0)) (joined_state a))"
  have run: "pybtrfs_mkfs h env host a = Some (ret (prepare_ctx host a 0), ?w)"
    using mkfs_prepared[OF assms(1,2)] mkfs_joined_dev0[OF False] by (simp add: out_close_result)
  have ev: "events ?w = map Launch [0..<device_count a] @ map Join [0..<device_count a] @
              close_fds host a [0..<device_count a] @ [Close_all_devices]"
    by (simp add: out_close_result joined_state_def)
  have "\<forall>j<device_count a. 0 \<le> fd (prepare_ctx host a j) \<longrightarrow> Close_fd j \<in> set (events ?w)"
    unfolding ev by (auto simp: close_fds_set)
  moreover have "Make_btrfs \<notin> set (events ?w)" "\<forall>l. Commit l \<notin> set (events ?w)"
    unfolding ev by (auto simp: close_fds_set)
  ultimately show ?thesis using run False by blast
next
  case True
  with assms(4) have "i \<noteq> 0" by (cases "i = 0") auto
  with assms(3) have mem: "i \<in> set [1..<device_count a]" by simp
  have af: "fst (attach_devices host a [1..<device_count a] s) \<noteq> 0" for s
    using attach_devices_fail[OF mem assms(4)] .
  have "fst (run_steps (mkfs_steps h env host a) s) \<noteq> 0" for s
  proof (rule run_steps_fail[where f = "attach_devices host a [1..<device_count a]"])
    show "attach_devices host a [1..<device_count a] \<in> set (mkfs_steps h env host a)"
      by (simp add: mkfs_steps_def)
    show "fst (attach_devices host a [1..<device_count a] s) \<noteq> 0" for s
      by (rule af)
  qed
  from mkfs_joined_fails[OF this, of "joined_state a"] mkfs_prepared[OF assms(1,2), of h env]
  obtain r w pre where run: "pybtrfs_mkfs h env host a = Some (r, w)" "r \<noteq> 0"
    and ev: "events w = pre @ close_fds host a [0..<device_count a] @ [Close_all_devices]"
    by auto
  have cl: "\<forall>j<device_count a. 0 \<le> fd (prepare_ctx host a j) \<longrightarrow> Close_fd j \<in> set (events w)"
    unfolding ev by (auto simp: close_fds_set)
  have "r = ret (prepare_ctx host a i) \<and> Make_btrfs \<in> set (events w)"
    if "0 < i" "\<forall>j<i. ret (prepare_ctx host a j) = 0" "attach_reached h env host a"
      "added_before host i"
    using later_device_failure[OF that(1) assms(3,4) that(2-4)] run(1)
      mkfs_prepared[OF assms(1,2), of h env]
    by auto
  with run cl True show ?thesis by blast
qed

text \<open>
  C3 (as amended). With a nonzero requested byte count above the first device's
  probed size, \<^verbatim>\<open>pybtrfs_mkfs\<close> fails and never calls \<^verbatim>\<open>make_btrfs\<close>; the error is
  \<^verbatim>\<open>-ENOSPC\<close> when the validation, the launch of the workers and the preparation of
  the first device succeeded.
\<close>

theorem oversized_request_fails:
  assumes "byte_count a \<noteq> 0" "byte_count a > dev_byte_count (prepare_ctx host a 0)"
  shows "\<exists>r w. pybtrfs_mkfs h env host a = Some (r, w) \<and> r \<noteq> 0 \<and>
           Make_btrfs \<notin> set (events w) \<and>
           (validation_ok host a \<and> launch_ok host a \<and> ret (prepare_ctx host a 0) = 0
              \<longrightarrow> r = - ENOSPC)"
proof -
  let ?n = "device_count a"
  consider (val) "\<not> validation_ok host a"
    | (mem) "validation_ok host a" "\<not> calloc_ok host"
    | (thr) i where "validation_ok host a" "calloc_ok host"
        "find (\<lambda>i. pthread_create_ret host i \<noteq> 0) [0..<?n] = Some i"
    | (ok) "validation_ok host a" "launch_ok host a"
    by (cases "find (\<lambda>i. pthread_create_ret host i \<noteq> 0) [0..<?n]") (auto simp: launch_ok_def)
  then show ?thesis
  proof cases
    case val
    then show ?thesis
      by (auto simp: pybtrfs_mkfs_def validation_ok_def Let_def out_free_def EINVAL_def)
  next
    case mem
    then show ?thesis
      by (auto simp: pybtrfs_mkfs_def validation_ok_def launch_ok_def Let_def out_free_def
          ENOMEM_def)
  next
    case thr
    from thr(3) have "pthread_create_ret host i \<noteq> 0"
      by (auto simp: find_Some_iff)
    with thr show ?thesis
      by (auto simp: pybtrfs_mkfs_def validation_ok_def launch_ok_def Let_def out_free_def
          close_fds_set)
  next
    case ok
    show ?thesis
    proof (cases "ret (prepare_ctx host a 0) = 0")
      case False
      let ?w = "snd (out_close host a (ret (prepare_ctx host a 0)) (joined_state a))"
      have "pybtrfs_mkfs h env host a = Some (ret (prepare_ctx host a 0), ?w)"
        using mkfs_prepared[OF ok] mkfs_joined_dev0[OF False] by (simp add: out_close_result)
      moreover have "Make_btrfs \<notin> set (events ?w)"
        by (auto simp: out_close_result joined_state_def close_fds_set)
      ultimately show ?thesis using False by blast
    next
      case True
      let ?w = "snd (out_close host a (- ENOSPC) (joined_state a))"
      have "pybtrfs_mkfs h env host a = Some (- ENOSPC, ?w)"
        using mkfs_prepared[OF ok] mkfs_joined_size[OF True assms] by (simp add: out_close_result)
      moreover have "Make_btrfs \<notin> set (events ?w)"
        by (auto simp: out_close_result joined_state_def close_fds_set)
      moreover have "- ENOSPC \<noteq> 0" by (simp add: ENOSPC_def)
      ultimately show ?thesis by blast
    qed
  qed
qed

text \<open>
  C2 as stated fails: when the preparation of the second of two devices fails, the
  error is found in the attach loop only, after \<^verbatim>\<open>make_btrfs\<close> and two commits. And
  when \<^verbatim>\<open>make_btrfs\<close> fails in such a run, the loop is not reached and the error of
  \<^verbatim>\<open>make_btrfs\<close> is the one returned.
\<close>

theorem late_device_failure_after_commits:
  "ret (prepare_ctx host_dev1_fails args_two 1) = - EIO \<and>
   map_option fst (pybtrfs_mkfs hdr0 env_ok host_dev1_fails args_two) = Some (- EIO) \<and>
   map_option (events \<circ> snd) (pybtrfs_mkfs hdr0 env_ok host_dev1_fails args_two) =
     Some [Launch 0, Launch 1, Join 0, Join 1, Make_btrfs, Open_ctree, Commit 170, Commit 1014,
           Close_ctree, Close_fd 0, Close_fd 1, Close_all_devices] \<and>
   ret (prepare_ctx host_make_fails args_two 1) = - EIO \<and>
   ret (prepare_ctx host_make_fails args_two 0) = 0 \<and>
   map_option fst (pybtrfs_mkfs hdr0 env_ok host_make_fails args_two) = Some (- ENOMEM) \<and>
   map_option (events \<circ> snd) (pybtrfs_mkfs hdr0 env_ok host_make_fails args_two) =
     Some [Launch 0, Launch 1, Join 0, Join 1, Make_btrfs, Close_fd 0, Close_fd 1,
           Close_all_devices] \<and>
   - EIO \<noteq> - ENOMEM"
  by (simp add: mkfs_defs example_defs const_defs host_make_fails_def word_sless_alt upt_rec)

text \<open>
  C3 as stated fails: without the force flag, on a device that does not pass
  \<^verbatim>\<open>test_dev_for_mkfs\<close>, the oversized request fails with \<^verbatim>\<open>-EINVAL\<close>.
\<close>

theorem oversized_request_einval:
  "byte_count args_big \<noteq> 0 \<and>
   dev_byte_count (prepare_ctx host_signature args_big 0) < byte_count args_big \<and>
   map_option fst (pybtrfs_mkfs hdr0 env_ok host_signature args_big) = Some (- EINVAL) \<and>
   - EINVAL \<noteq> - ENOSPC"
  by (simp add: mkfs_defs example_defs const_defs word_sless_alt upt_rec)

theorem device_failure_aborts_witness:
  "validation_ok host_dev1_fails args_two \<and> launch_ok host_dev1_fails args_two \<and>
   (1::nat) < device_count args_two \<and> ret (prepare_ctx host_dev1_fails args_two 1) = - EIO \<and>
   ret (prepare_ctx host_dev1_fails args_two 0) = 0 \<and>
   attach_reached hdr0 env_ok host_dev1_fails args_two \<and> added_before host_dev1_fails 1 \<and>
   fd (prepare_ctx host_dev1_fails args_two 1) = 4 \<and>
   (\<exists>w. pybtrfs_mkfs hdr0 env_ok host_dev1_fails args_two = Some (- EIO, w) \<and>
      Close_fd 1 \<in> set (events w) \<and> Make_btrfs \<in> set (events w)) \<and>
   validation_ok host_dev0_fails args_two \<and> launch_ok host_dev0_fails args_two \<and>
   ret (prepare_ctx host_dev0_fails args_two 0) = - 13 \<and>
   (\<exists>w. pybtrfs_mkfs hdr0 env_ok host_dev0_fails args_two = Some (- 13, w) \<and>
      Make_btrfs \<notin> set (events w) \<and> Close_fd 1 \<in> set (events w))"
proof -
  have v1: "validation_ok host_dev1_fails args_two" "launch_ok host_dev1_fails args_two"
    and v0: "validation_ok host_dev0_fails args_two" "launch_ok host_dev0_fails args_two"
    by (simp_all add: validation_ok_def launch_ok_def host_dev1_fails_def host_dev0_fails_def
        host_ok_def args_two_def args_one_def find_None_iff)
  have n: "(1::nat) < device_count args_two" "(0::nat) < device_count args_two"
    by (simp_all add: args_two_def args_one_def)
  have r1: "ret (prepare_ctx host_dev1_fails args_two 1) = - EIO"
    "fd (prepare_ctx host_dev1_fails args_two 1) = 4"
    "ret (prepare_ctx host_dev1_fails args_two 0) = 0"
    by (simp_all add: prepare_ctx_def prepare_one_device_def host_dev1_fails_def host_ok_def)
  have nz1: "ret (prepare_ctx host_dev1_fails args_two 1) \<noteq> 0"
    unfolding r1(1) by (simp add: EIO_def)
  have first: "\<forall>j<1. ret (prepare_ctx host_dev1_fails args_two j) = 0"
    using r1(3) by simp
  have reach: "attach_reached hdr0 env_ok host_dev1_fails args_two"
    by (simp add: attach_reached_def bootstrap_steps_def opened_state_def joined_state_def
        mkfs_defs example_defs const_defs word_sless_alt)
  have added: "added_before host_dev1_fails 1"
    by (simp add: added_before_def)
  have r0: "ret (prepare_ctx host_dev0_fails args_two 0) = - 13"
    "fd (prepare_ctx host_dev0_fails args_two 1) = 4"
    by (simp_all add: prepare_ctx_def prepare_one_device_def host_dev0_fails_def host_ok_def)
  from device_failure_aborts[OF v1 n(1) nz1, of hdr0 env_ok]
  obtain r w where a1: "pybtrfs_mkfs hdr0 env_ok host_dev1_fails args_two = Some (r, w)"
    "\<forall>j<device_count args_two. 0 \<le> fd (prepare_ctx host_dev1_fails args_two j)
        \<longrightarrow> Close_fd j \<in> set (events w)"
    "0 < (1::nat) \<and> (\<forall>j<1. ret (prepare_ctx host_dev1_fails args_two j) = 0) \<and>
       attach_reached hdr0 env_ok host_dev1_fails args_two \<and> added_before host_dev1_fails 1 \<longrightarrow>
       r = ret (prepare_ctx host_dev1_fails args_two 1) \<and> Make_btrfs \<in> set (events w)"
    by blast
  from a1(2) n(1) r1(2) have "Close_fd 1 \<in> set (events w)" by simp
  moreover from a1(3) first reach added r1(1) have "r = - EIO" "Make_btrfs \<in> set (events w)"
    by simp_all
  ultimately have a: "\<exists>w. pybtrfs_mkfs hdr0 env_ok host_dev1_fails args_two = Some (- EIO, w) \<and>
      Close_fd 1 \<in> set (events w) \<and> Make_btrfs \<in> set (events w)"
    using a1(1) by blast
  have nz: "ret (prepare_ctx host_dev0_fails args_two 0) \<noteq> 0" using r0(1) by simp
  from device_failure_aborts[OF v0 n(2) nz, of hdr0 env_ok]
  obtain r' w' where b1: "pybtrfs_mkfs hdr0 env_ok host_dev0_fails args_two = Some (r', w')"
    "\<forall>j<device_count args_two. 0 \<le> fd (prepare_ctx host_dev0_fails args_two j)
        \<longrightarrow> Close_fd j \<in> set (events w')"
    "ret (prepare_ctx host_dev0_fails args_two 0) \<noteq> 0 \<longrightarrow>
       r' = ret (prepare_ctx host_dev0_fails args_two 0) \<and> Make_btrfs \<notin> set (events w')"
    by blast
  from b1(2) n(1) r0(2) have "Close_fd 1 \<in> set (events w')" by simp
  moreover from b1(3) nz r0(1) have "r' = - 13" "Make_btrfs \<notin> set (events w')" by simp_all
  ultimately have b: "\<exists>w. pybtrfs_mkfs hdr0 env_ok host_dev0_fails args_two = Some (- 13, w) \<and>
      Make_btrfs \<notin> set (events w) \<and> Close_fd 1 \<in> set (events w)"
    using b1(1) by blast
  from v1 v0 n r1 reach added r0 a b show ?thesis by (intro conjI)
qed

theorem oversized_request_fails_witness:
  "byte_count args_big_forced \<noteq> 0 \<and>
   byte_count args_big_forced > dev_byte_count (prepare_ctx host_ok args_big_forced 0) \<and>
   validation_ok host_ok args_big_forced \<and> launch_ok host_ok args_big_forced \<and>
   ret (prepare_ctx host_ok args_big_forced 0) = 0 \<and>
   (\<exists>w. pybtrfs_mkfs hdr0 env_ok host_ok args_big_forced = Some (- ENOSPC, w) \<and>
      Make_btrfs \<notin> set (events w))"
proof -
  have h: "byte_count args_big_forced \<noteq> 0"
    "byte_count args_big_forced > dev_byte_count (prepare_ctx host_ok args_big_forced 0)"
    by (simp_all add: args_big_forced_def args_big_def args_one_def prepare_ctx_def
        prepare_one_device_def host_ok_def)
  have v: "validation_ok host_ok args_big_forced" "launch_ok host_ok args_big_forced"
    "ret (prepare_ctx host_ok args_big_forced 0) = 0"
    by (simp_all add: validation_ok_def launch_ok_def args_big_forced_def args_big_def
        args_one_def prepare_ctx_def prepare_one_device_def host_ok_def find_None_iff)
  from oversized_request_fails[OF h, of hdr0 env_ok] v
  have "\<exists>w. pybtrfs_mkfs hdr0 env_ok host_ok args_big_forced = Some (- ENOSPC, w) \<and>
      Make_btrfs \<notin> set (events w)"
    by blast
  with h v show ?thesis by blast
qed

text \<open>
  C4 (as amended). \<^verbatim>\<open>create_raid_groups\<close> makes block groups in the order of its plan: for
  a nonzero metadata profile a SYSTEM group at the metadata profile, then a METADATA
  group (DATA|METADATA in mixed mode) at the metadata profile; then, if not mixed and
  the data profile is nonzero, a DATA group at the data profile. A metadata profile of
  zero skips the SYSTEM group and the metadata group. The groups made are always a
  prefix of the plan, and the whole plan when the function returns 0.
\<close>

theorem raid_groups_in_order:
  assumes "create_raid_groups h env dp mp is_mixed s = (r, s')"
  shows "\<exists>made. created s' = created s @ made \<and>
           map flags made = take (length made) (planned_raid_groups dp mp is_mixed) \<and>
           (r = 0 \<longrightarrow> map flags made = planned_raid_groups dp mp is_mixed)"
  using assms by (rule raid_groups_created)

theorem raid_groups_in_order_witness:
  "\<exists>s'. create_raid_groups hdr0 env_ok 16 32 False state_empty = (0, s') \<and>
      map flags (created s') = planned_raid_groups 16 32 False \<and>
      planned_raid_groups 16 32 False = [34, 36, 17]"
proof -
  obtain r s' where c: "create_raid_groups hdr0 env_ok 16 32 False state_empty = (r, s')"
    by (cases "create_raid_groups hdr0 env_ok 16 32 False state_empty")
  have "fst (create_raid_groups hdr0 env_ok 16 32 False state_empty) = 0"
    by (simp add: mkfs_defs example_defs const_defs)
  with c have r: "r = 0" by simp
  have e: "created state_empty = []" by (simp add: state_empty_def)
  have p: "planned_raid_groups 16 32 False = [34, 36, 17]"
    by (simp add: planned_raid_groups_def const_defs)
  from raid_groups_in_order[OF c]
  obtain made where m: "created s' = created state_empty @ made"
    "r = 0 \<longrightarrow> map flags made = planned_raid_groups 16 32 False"
    by blast
  with r e have "map flags (created s') = planned_raid_groups 16 32 False"
    by simp
  with c r p show ?thesis by blast
qed

text \<open>
  C4 as stated fails: with a metadata profile of zero and a RAID1 data profile the
  planner returns 0 and has made the DATA group only, no SYSTEM group.
\<close>

theorem raid_groups_zero_metadata_no_system:
  "fst (create_raid_groups hdr0 env_ok 16 0 False state_empty) = 0 \<and>
   map flags (created (snd (create_raid_groups hdr0 env_ok 16 0 False state_empty))) = [17] \<and>
   spec_raid_groups 16 0 False = [2, 17]"
  by (simp add: mkfs_defs example_defs const_defs spec_raid_groups_def)

text \<open>
  C5. For a chunk that \<^verbatim>\<open>create_one_raid_group\<close> has allocated, the type mask of its
  flags is compared with DATA, METADATA, SYSTEM and METADATA|DATA, four different
  values, and the ledger field of the one that matches is incremented by the chunk
  size; for any other type mask the function returns \<^verbatim>\<open>-EINVAL\<close> and leaves the ledger
  as it is. A planned group with such a type mask aborts the operation:
  \<^verbatim>\<open>pybtrfs_mkfs\<close> returns a nonzero result.
\<close>

theorem raid_group_ledger_classes:
  assumes "alloc_chunk env (bg_tree s) type = (0, chunk_start, chunk_size)"
  shows "(valid_type_mask h type \<longrightarrow>
            fst (create_one_raid_group h env type s) =
              make_block_group_ret env type chunk_start chunk_size) \<and>
         (type AND BTRFS_BLOCK_GROUP_TYPE_MASK h = BTRFS_BLOCK_GROUP_DATA \<longrightarrow>
            allocation (snd (create_one_raid_group h env type s)) =
              (allocation s)\<lparr>data := data (allocation s) + chunk_size\<rparr>) \<and>
         (type AND BTRFS_BLOCK_GROUP_TYPE_MASK h = BTRFS_BLOCK_GROUP_METADATA \<longrightarrow>
            allocation (snd (create_one_raid_group h env type s)) =
              (allocation s)\<lparr>metadata := metadata (allocation s) + chunk_size\<rparr>) \<and>
         (type AND BTRFS_BLOCK_GROUP_TYPE_MASK h = BTRFS_BLOCK_GROUP_SYSTEM \<longrightarrow>
            allocation (snd (create_one_raid_group h env type s)) =
              (allocation s)\<lparr>system := system (allocation s) + chunk_size\<rparr>) \<and>
         (type AND BTRFS_BLOCK_GROUP_TYPE_MASK h =
            (BTRFS_BLOCK_GROUP_METADATA OR BTRFS_BLOCK_GROUP_DATA) \<longrightarrow>
            allocation (snd (create_one_raid_group h env type s)) =
              (allocation s)\<lparr>mixed := mixed (allocation s) + chunk_size\<rparr>) \<and>
         (\<not> valid_type_mask h type \<longrightarrow>
            fst (create_one_raid_group h env type s) = - EINVAL \<and>
            allocation (snd (create_one_raid_group h env type s)) = allocation s) \<and>
         distinct [BTRFS_BLOCK_GROUP_DATA, BTRFS_BLOCK_GROUP_METADATA, BTRFS_BLOCK_GROUP_SYSTEM,
                   BTRFS_BLOCK_GROUP_METADATA OR BTRFS_BLOCK_GROUP_DATA] \<and>
         (\<forall>host a. (\<exists>g\<in>set (planned_raid_groups (mkfs_data_prof h a) (mkfs_meta_profile h a)
                               (mixed_arg a)). \<not> valid_type_mask h g) \<longrightarrow>
             (\<exists>r w. pybtrfs_mkfs h env host a = Some (r, w) \<and> r \<noteq> 0))"
proof -
  have led: "allocation (snd (btrfs_make_block_group env 0 type chunk_start chunk_size s))
               = allocation s"
    by (simp add: btrfs_make_block_group_def Let_def)
  have rc: "fst (btrfs_make_block_group env 0 type chunk_start chunk_size s)
               = make_block_group_ret env type chunk_start chunk_size"
    by (simp add: btrfs_make_block_group_def Let_def)
  have unf: "create_one_raid_group h env type s =
     (let s1 = snd (btrfs_make_block_group env 0 type chunk_start chunk_size s);
          ret = make_block_group_ret env type chunk_start chunk_size;
          alloc = allocation s;
          T = type AND BTRFS_BLOCK_GROUP_TYPE_MASK h
      in if T = BTRFS_BLOCK_GROUP_DATA then
           (ret, s1\<lparr>allocation := alloc\<lparr>data := data alloc + chunk_size\<rparr>\<rparr>)
         else if T = BTRFS_BLOCK_GROUP_METADATA then
           (ret, s1\<lparr>allocation := alloc\<lparr>metadata := metadata alloc + chunk_size\<rparr>\<rparr>)
         else if T = BTRFS_BLOCK_GROUP_SYSTEM then
           (ret, s1\<lparr>allocation := alloc\<lparr>system := system alloc + chunk_size\<rparr>\<rparr>)
         else if T = (BTRFS_BLOCK_GROUP_METADATA OR BTRFS_BLOCK_GROUP_DATA) then
           (ret, s1\<lparr>allocation := alloc\<lparr>mixed := mixed alloc + chunk_size\<rparr>\<rparr>)
         else (- EINVAL, s1))"
    using assms led rc
    by (cases "btrfs_make_block_group env 0 type chunk_start chunk_size s")
       (simp add: create_one_raid_group_def Let_def ENOSPC_def)
  have abort: "\<exists>r w. pybtrfs_mkfs h env host a = Some (r, w) \<and> r \<noteq> 0"
    if "g \<in> set (planned_raid_groups (mkfs_data_prof h a) (mkfs_meta_profile h a) (mixed_arg a))"
       "\<not> valid_type_mask h g" for host a g
  proof (rule mkfs_fails)
    fix s0
    show "fst (run_steps (mkfs_steps h env host a) s0) \<noteq> 0"
    proof (rule run_steps_fail[where f = "create_raid_groups h env (mkfs_data_prof h a)
              (mkfs_meta_profile h a) (mixed_arg a)"])
      show "create_raid_groups h env (mkfs_data_prof h a) (mkfs_meta_profile h a) (mixed_arg a)
              \<in> set (mkfs_steps h env host a)"
        by (simp add: mkfs_steps_def)
      show "fst (create_raid_groups h env (mkfs_data_prof h a) (mkfs_meta_profile h a)
              (mixed_arg a) s1) \<noteq> 0" for s1
        using that by (rule raid_groups_invalid)
    qed
  qed
  have d: "distinct [BTRFS_BLOCK_GROUP_DATA, BTRFS_BLOCK_GROUP_METADATA, BTRFS_BLOCK_GROUP_SYSTEM,
                   BTRFS_BLOCK_GROUP_METADATA OR BTRFS_BLOCK_GROUP_DATA]"
    by (simp add: const_defs)
  show ?thesis
    using abort d
    by (auto simp: unf led Let_def valid_type_mask_def const_defs)
qed

theorem raid_group_ledger_classes_witness:
  "alloc_chunk env_ok (bg_tree state_empty) 34 = (0, 1048576, 1073741824) \<and>
   34 AND BTRFS_BLOCK_GROUP_TYPE_MASK hdr0 = BTRFS_BLOCK_GROUP_SYSTEM \<and>
   allocation (snd (create_one_raid_group hdr0 env_ok 34 state_empty)) =
     \<lparr>data = 0, metadata = 0, mixed = 0, system = 1073741824, remap = 0\<rparr> \<and>
   alloc_chunk env_ok (bg_tree state_empty) 3 = (0, 1048576, 1073741824) \<and>
   \<not> valid_type_mask hdr0 3 \<and>
   fst (create_one_raid_group hdr0 env_ok 3 state_empty) = - EINVAL \<and>
   (\<exists>r w. pybtrfs_mkfs hdr0 env_ok host_ok args_bad_profile = Some (r, w) \<and> r \<noteq> 0)"
proof -
  have a1: "alloc_chunk env_ok (bg_tree state_empty) 34 = (0, 1048576, 1073741824)"
    and a2: "alloc_chunk env_ok (bg_tree state_empty) 3 = (0, 1048576, 1073741824)"
    by (simp_all add: env_ok_def state_empty_def)
  have m1: "34 AND BTRFS_BLOCK_GROUP_TYPE_MASK hdr0 = BTRFS_BLOCK_GROUP_SYSTEM"
    and m2: "\<not> valid_type_mask hdr0 3"
    by (simp_all add: valid_type_mask_def hdr0_def const_defs)
  have z: "allocation state_empty = \<lparr>data = 0, metadata = 0, mixed = 0, system = 0, remap = 0\<rparr>"
    by (simp add: state_empty_def)
  have g: "3 \<in> set (planned_raid_groups (mkfs_data_prof hdr0 args_bad_profile)
             (mkfs_meta_profile hdr0 args_bad_profile) (mixed_arg args_bad_profile))"
    by (simp add: planned_raid_groups_def mkfs_meta_profile_def mkfs_data_prof_def
        args_bad_profile_def args_one_def const_defs word_sless_alt)
  from raid_group_ledger_classes[OF a1, of hdr0] m1 z
  have l: "allocation (snd (create_one_raid_group hdr0 env_ok 34 state_empty)) =
     \<lparr>data = 0, metadata = 0, mixed = 0, system = 1073741824, remap = 0\<rparr>"
    by simp
  from raid_group_ledger_classes[OF a2, of hdr0] m2 g
  have e: "fst (create_one_raid_group hdr0 env_ok 3 state_empty) = - EINVAL"
    and f: "\<exists>r w. pybtrfs_mkfs hdr0 env_ok host_ok args_bad_profile = Some (r, w) \<and> r \<noteq> 0"
    by blast+
  from a1 a2 m1 m2 l e f show ?thesis by blast
qed

text \<open>
  C1. After \<^verbatim>\<open>cleanup_temp_chunks\<close> has returned 0, no block group should be left that
  \<^verbatim>\<open>is_temp_block_group\<close> holds of. The run below returns 0 and leaves one: the
  removal of the first temporary group fails with \<^verbatim>\<open>-EIO\<close>, the loop is left for
  \<^verbatim>\<open>out\<close>, and the result of the commit overwrites the error. With the same
  environment \<^verbatim>\<open>pybtrfs_mkfs\<close> on one device returns 0 too, and the tree it leaves
  still has the three bootstrap groups with the single profile.
\<close>

theorem cleanup_masks_removal_failure:
  "is_temp_block_group hdr0 (bg_item 1048576 4194304 2 0) 0 32 32 \<and>
   bg_item 1048576 4194304 2 0 \<in> set (bg_tree state_one) \<and>
   remove_block_group_err env_remove_fails 1048576 4194304 = - EIO \<and>
   cleanup_temp_chunks hdr0 env_remove_fails state_one 0 32 32 1 =
     Some (0, state_one\<lparr>events := [Commit 556]\<rparr>) \<and>
   map_option fst (pybtrfs_mkfs hdr0 env_remove_fails host_ok args_one) = Some 0 \<and>
   map_option (map flags \<circ> bg_tree \<circ> snd) (pybtrfs_mkfs hdr0 env_remove_fails host_ok args_one)
     = Some [2, 4, 1, 34, 36]"
  by (simp add: cleanup_temp_chunks_def cleanup_loop.simps state_one_def tree_one_def
        btrfs_search_slot_def is_temp_block_group_def btrfs_remove_block_group_def
        env_remove_fails_def mkfs_defs example_defs const_defs word_sless_alt upt_rec)

text \<open>
  C8 as stated fails: a SYSTEM block group with nothing used can survive the cleanup
  although its profile bits differ from those of the metadata profile. In the first run
  below the metadata profile is DUP and the removal of the SYSTEM group with the single
  profile fails with \<^verbatim>\<open>-EIO\<close>; the cleaner has run (its commit of line 556 is the last
  one) and the group is still in the tree that \<^verbatim>\<open>pybtrfs_mkfs\<close> leaves. In the second
  run no call fails and the group is gone. In the third run the cleaner cannot start its
  transaction: it returns the error, \<^verbatim>\<open>pybtrfs_mkfs\<close> returns it, and the group is in
  the tree.
\<close>

theorem system_group_survives_failed_removal:
  "mkfs_meta_profile hdr0 args_one = BTRFS_BLOCK_GROUP_DUP \<and>
   is_bg (bg_item 1048576 4194304 2 0) \<and> used (bg_item 1048576 4194304 2 0) = 0 \<and>
   flags (bg_item 1048576 4194304 2 0) AND BTRFS_BLOCK_GROUP_TYPE_MASK hdr0
     = BTRFS_BLOCK_GROUP_SYSTEM \<and>
   flags (bg_item 1048576 4194304 2 0) AND BTRFS_BLOCK_GROUP_PROFILE_MASK hdr0
     \<noteq> mkfs_meta_profile hdr0 args_one AND BTRFS_BLOCK_GROUP_PROFILE_MASK hdr0 \<and>
   remove_block_group_err env_remove_fails 1048576 4194304 = - EIO \<and>
   map_option fst (pybtrfs_mkfs hdr0 env_remove_fails host_ok args_one) = Some 0 \<and>
   map_option (bg_tree \<circ> snd) (pybtrfs_mkfs hdr0 env_remove_fails host_ok args_one) =
     Some [bg_item 1048576 4194304 2 0, bg_item 5242880 1073741824 4 0,
           bg_item 1078984704 1073741824 1 0, bg_item 2152726528 1073741824 34 0,
           bg_item 3226468352 1073741824 36 0] \<and>
   map_option (events \<circ> snd) (pybtrfs_mkfs hdr0 env_remove_fails host_ok args_one) =
     Some [Launch 0, Join 0, Make_btrfs, Open_ctree, Commit 170, Commit 1014, Commit 1053,
           Commit 1077, Commit 556, Close_ctree, Close_fd 0, Close_all_devices] \<and>
   map_option fst (pybtrfs_mkfs hdr0 env_ok host_ok args_one) = Some 0 \<and>
   map_option (bg_tree \<circ> snd) (pybtrfs_mkfs hdr0 env_ok host_ok args_one) =
     Some [bg_item 1078984704 1073741824 1 0, bg_item 2152726528 1073741824 34 0,
           bg_item 3226468352 1073741824 36 0] \<and>
   start_transaction_err env_start_fails 488 = - ENOMEM \<and>
   map_option fst (pybtrfs_mkfs hdr0 env_start_fails host_ok args_one) = Some (- ENOMEM) \<and>
   map_option (bg_tree \<circ> snd) (pybtrfs_mkfs hdr0 env_start_fails host_ok args_one) =
     Some [bg_item 1048576 4194304 2 0, bg_item 5242880 1073741824 4 0,
           bg_item 1078984704 1073741824 1 0, bg_item 2152726528 1073741824 34 0,
           bg_item 3226468352 1073741824 36 0]"
  by (simp add: cleanup_temp_chunks_def cleanup_loop.simps
        btrfs_search_slot_def is_temp_block_group_def btrfs_remove_block_group_def
        env_remove_fails_def env_start_fails_def mkfs_defs example_defs const_defs
        word_sless_alt upt_rec is_bg_def ledger_remove_def)

end
